theory Spec2Isabelle
  imports Complex_Main "HOL-Library.Word"
begin

section \<open>The Pyoro game core (birdbeansgame.c, the variant with angels and a step queue)\<close>

text \<open>
  The C program keeps its whole state in statics: \<open>s_game\<close>, the step queue
  \<open>s_pending_step_dir\<close>/\<open>s_pending_step_count\<close>, the high-score table and a few
  counters. Every function below takes that state and returns the new one.

  Modelling choices:
  \<^item> C \<open>float\<close> is modelled by \<open>real\<close>: arithmetic is exact, there is no rounding, no
    infinity and no NaN. Comparisons, clamping and the cast to \<open>int\<close> follow the source.
  \<^item> C \<open>int\<close> is modelled by \<open>int\<close> (no overflow); \<open>s_frame_count\<close> is a \<open>uint32_t\<close>
    and wraps.
  \<^item> The arrays \<open>beans[5]\<close>, \<open>blocks[GAME_WIDTH]\<close> and \<open>s_high_scores[NUM_HIGH_SCORES]\<close>
    are lists; theorems that read them assume the declared lengths.
  \<^item> \<open>rand()\<close> is an input: the values that the successive calls return are
    parameters of the functions that call it.
  \<^item> Drawing, bitmaps, text layers, timers and the persistent store are not modelled.
\<close>

subsection \<open>Constants\<close>

definition GAME_WIDTH :: int where "GAME_WIDTH = 20"
definition GAME_HEIGHT :: int where "GAME_HEIGHT = 20"
definition PYORO_SIZE :: int where "PYORO_SIZE = 2"
definition PYORO_VISUAL_SIZE :: int where "PYORO_VISUAL_SIZE = 5"
definition BEAN_SIZE :: int where "BEAN_SIZE = 2"
definition TONGUE_WIDTH :: int where "TONGUE_WIDTH = 2"
definition TONGUE_SPEED :: real where "TONGUE_SPEED = 15"
definition BEAN_SPEED :: real where "BEAN_SPEED = 1.8"
definition PYORO_SINGLE_STEP :: real where "PYORO_SINGLE_STEP = 0.25"
definition PYORO_PENDING_STEPS_MAX :: int where "PYORO_PENDING_STEPS_MAX = 60"
definition BEAN_SPAWN_FREQUENCY :: real where "BEAN_SPAWN_FREQUENCY = 2"
definition SPEED_ACCELERATION :: real where "SPEED_ACCELERATION = 0.01"
definition DEATH_DELAY :: real where "DEATH_DELAY = 1"
definition ANGEL_SPEED :: real where "ANGEL_SPEED = 35"
definition NUM_BACKGROUNDS :: int where "NUM_BACKGROUNDS = 21"
definition SCORE_PER_BACKGROUND :: int where "SCORE_PER_BACKGROUND = 40"
definition NUM_HIGH_SCORES :: int where "NUM_HIGH_SCORES = 10"
definition HIGH_SCORE_EMPTY :: int where "HIGH_SCORE_EMPTY = -1"

subsection \<open>C arithmetic\<close>

text \<open>The cast \<open>(int)x\<close> of a float truncates towards zero.\<close>

definition int_of_float :: "real \<Rightarrow> int" where
  "int_of_float x = (if 0 \<le> x then \<lfloor>x\<rfloor> else \<lceil>x\<rceil>)"

text \<open>Integer division \<open>a / b\<close> truncates towards zero.\<close>

definition c_div :: "int \<Rightarrow> int \<Rightarrow> int" where
  "c_div a b = sgn a * sgn b * (\<bar>a\<bar> div \<bar>b\<bar>)"

subsection \<open>Game state\<close>

record Tongue =
  tongue_active :: bool
  tongue_x :: real
  tongue_y :: real
  tongue_direction :: int
  going_back :: bool
  caught_bean :: bool

record Pyoro =
  pyoro_x :: real
  pyoro_y :: real
  direction :: int
  moving :: bool
  dead :: bool
  button_held :: bool
  tongue :: Tongue

datatype BeanType = BEAN_TYPE_GREEN | BEAN_TYPE_PINK

record Bean =
  bean_x :: real
  bean_y :: real
  speed :: real
  active :: bool
  caught :: bool
  bean_type :: BeanType

record Block =
  exists :: bool
  is_repairing :: bool

record Angel =
  angel_x :: real
  angel_y :: real
  angel_active :: bool
  target_block_index :: int
  going_up :: bool

datatype GameState = GAME_STATE_MENU | GAME_STATE_PLAYING | GAME_STATE_GAME_OVER

record Game =
  state :: GameState
  pyoro :: Pyoro
  beans :: "Bean list"
  blocks :: "Block list"
  angel :: Angel
  score :: int
  game_speed :: real
  bean_spawn_timer :: real
  death_timer :: real
  game_paused :: bool

text \<open>The statics of the translation unit: the fields of \<open>s_game\<close> and the other
  variables that the simulation reads or writes.\<close>

record Statics = Game +
  s_background_index :: int
  s_high_scores :: "int list"
  s_last_game_score :: int
  s_frame_count :: "32 word"
  s_pending_step_dir :: int
  s_pending_step_count :: int

subsection \<open>apply_pyoro_step\<close>

text \<open>The loop \<open>for (i = block_left; i <= block_right && i < GAME_WIDTH; i++)\<close>:
  \<open>False\<close> is the early \<open>return false\<close>, \<open>True\<close> is falling out of the loop.\<close>

function step_blocks_loop :: "Block list \<Rightarrow> int \<Rightarrow> int \<Rightarrow> bool" where
  "step_blocks_loop bl i block_right =
     (if i \<le> block_right \<and> i < GAME_WIDTH then
        (if 0 \<le> i \<and> \<not> exists (bl ! nat i) then False
         else step_blocks_loop bl (i + 1) block_right)
      else True)"
  by pat_completeness auto
termination
  by (relation "measure (\<lambda>(bl, i, r). nat (GAME_WIDTH - i))") auto

declare step_blocks_loop.simps [simp del]

definition apply_pyoro_step :: "int \<Rightarrow> Statics \<Rightarrow> bool \<times> Statics" where
  "apply_pyoro_step step_dir s =
     (let new_x0 = pyoro_x (pyoro s) + real_of_int step_dir * PYORO_SINGLE_STEP;
          new_x = (if new_x0 < real_of_int PYORO_SIZE / 2 then real_of_int PYORO_SIZE / 2
                   else if new_x0 > real_of_int GAME_WIDTH - real_of_int PYORO_SIZE / 2
                   then real_of_int GAME_WIDTH - real_of_int PYORO_SIZE / 2
                   else new_x0);
          block_left = int_of_float (new_x - real_of_int PYORO_SIZE / 2);
          block_right = int_of_float (new_x + real_of_int PYORO_SIZE / 2)
      in if step_blocks_loop (blocks s) block_left block_right
         then (True, s\<lparr>pyoro := (pyoro s)\<lparr>pyoro_x := new_x\<rparr>\<rparr>)
         else (False, s))"

subsection \<open>High scores\<close>

text \<open>The first loop of \<open>insert_high_score\<close>: the index of the first slot that is empty
  or holds a smaller score, \<open>-1\<close> when there is none.\<close>

function find_insert_at :: "int list \<Rightarrow> int \<Rightarrow> int \<Rightarrow> int" where
  "find_insert_at hs sc i =
     (if i < NUM_HIGH_SCORES then
        (if hs ! nat i = HIGH_SCORE_EMPTY \<or> sc > hs ! nat i then i
         else find_insert_at hs sc (i + 1))
      else -1)"
  by pat_completeness auto
termination
  by (relation "measure (\<lambda>(hs, sc, i). nat (NUM_HIGH_SCORES - i))") auto

declare find_insert_at.simps [simp del]

text \<open>The second loop: \<open>for (i = NUM_HIGH_SCORES - 1; i > insert_at; i--)\<close>.\<close>

function shift_scores :: "int list \<Rightarrow> int \<Rightarrow> int \<Rightarrow> int list" where
  "shift_scores hs i insert_at =
     (if i > insert_at then shift_scores (hs[nat i := hs ! nat (i - 1)]) (i - 1) insert_at
      else hs)"
  by pat_completeness auto
termination
  by (relation "measure (\<lambda>(hs, i, k). nat (i - k))") auto

declare shift_scores.simps [simp del]

definition insert_high_score :: "int \<Rightarrow> Statics \<Rightarrow> Statics" where
  "insert_high_score sc s =
     (let insert_at = find_insert_at (s_high_scores s) sc 0
      in if insert_at < 0 then s
         else s\<lparr>s_high_scores :=
                 (shift_scores (s_high_scores s) (NUM_HIGH_SCORES - 1) insert_at)
                   [nat insert_at := sc]\<rparr>)"

subsection \<open>init_game and reset_game\<close>

text \<open>\<open>init_game\<close> assigns only the fields listed; every other field (the tongue's and
  the angel's position, a bean's position, speed and \<open>caught\<close> flag) keeps its value.\<close>

definition init_game :: "Statics \<Rightarrow> Statics" where
  "init_game s =
     s\<lparr>state := GAME_STATE_MENU,
       score := 0,
       game_speed := 1,
       bean_spawn_timer := 0,
       death_timer := 0,
       game_paused := False,
       pyoro := (pyoro s)\<lparr>pyoro_x := real_of_int GAME_WIDTH / 2,
                          pyoro_y := real_of_int GAME_HEIGHT - 2,
                          direction := 1,
                          moving := False,
                          dead := False,
                          button_held := False,
                          tongue := (tongue (pyoro s))\<lparr>tongue_active := False\<rparr>\<rparr>,
       blocks := map (\<lambda>b. b\<lparr>exists := True, is_repairing := False\<rparr>) (blocks s),
       beans := map (\<lambda>b. b\<lparr>active := False, bean_type := BEAN_TYPE_GREEN\<rparr>) (beans s),
       angel := (angel s)\<lparr>angel_active := False\<rparr>\<rparr>"

definition reset_game :: "Statics \<Rightarrow> Statics" where
  "reset_game s =
     (init_game s)\<lparr>state := GAME_STATE_PLAYING,
                   s_pending_step_dir := 0,
                   s_pending_step_count := 0,
                   s_background_index := 0\<rparr>"

subsection \<open>Spawning\<close>

function find_destroyed_block_loop :: "Block list \<Rightarrow> nat \<Rightarrow> int" where
  "find_destroyed_block_loop bl i =
     (if int i < GAME_WIDTH then
        (if \<not> exists (bl ! i) \<and> \<not> is_repairing (bl ! i) then int i
         else find_destroyed_block_loop bl (i + 1))
      else -1)"
  by pat_completeness auto
termination
  by (relation "measure (\<lambda>(bl, i). nat GAME_WIDTH - i)") auto

declare find_destroyed_block_loop.simps [simp del]

definition find_destroyed_block :: "Statics \<Rightarrow> int" where
  "find_destroyed_block s = find_destroyed_block_loop (blocks s) 0"

text \<open>\<open>spawn_bean\<close>: \<open>r1\<close>, \<open>r2\<close>, \<open>r3\<close> are the results of the calls of \<open>rand()\<close>, in
  order; the third call is made only when a destroyed block was found.\<close>

function spawn_bean_loop :: "nat \<Rightarrow> nat \<Rightarrow> nat \<Rightarrow> nat \<Rightarrow> Statics \<Rightarrow> Statics" where
  "spawn_bean_loop r1 r2 r3 i s =
     (if i < 5 then
        (if \<not> active (beans s ! i) then
           (let destroyed_block = find_destroyed_block s;
                b = (beans s ! i)\<lparr>bean_x := real (r1 mod nat GAME_WIDTH) + 0.5,
                                  bean_y := 0,
                                  speed := real (r2 mod 100) / 100 * 1 + 0.5,
                                  active := True,
                                  caught := False,
                                  bean_type := (if destroyed_block \<ge> 0 \<and> r3 mod 5 < 2
                                                then BEAN_TYPE_PINK else BEAN_TYPE_GREEN)\<rparr>
            in s\<lparr>beans := (beans s)[i := b]\<rparr>)
         else spawn_bean_loop r1 r2 r3 (i + 1) s)
      else s)"
  by pat_completeness auto
termination
  by (relation "measure (\<lambda>(r1, r2, r3, i, s). 5 - i)") auto

declare spawn_bean_loop.simps [simp del]

definition spawn_bean :: "nat \<Rightarrow> nat \<Rightarrow> nat \<Rightarrow> Statics \<Rightarrow> Statics" where
  "spawn_bean r1 r2 r3 s = spawn_bean_loop r1 r2 r3 0 s"

definition spawn_angel :: "int \<Rightarrow> Statics \<Rightarrow> Statics" where
  "spawn_angel block_index s =
     (if block_index < 0 \<or> block_index \<ge> GAME_WIDTH then s
      else if exists (blocks s ! nat block_index) \<or> is_repairing (blocks s ! nat block_index)
      then s
      else if angel_active (angel s) then s
      else s\<lparr>angel := (angel s)\<lparr>angel_active := True,
                                 angel_x := real_of_int block_index + 0.5,
                                 angel_y := 0,
                                 target_block_index := block_index,
                                 going_up := False\<rparr>,
              blocks := (blocks s)[nat block_index :=
                           (blocks s ! nat block_index)\<lparr>is_repairing := True\<rparr>]\<rparr>)"

subsection \<open>Collision test\<close>

definition check_collision ::
  "real \<Rightarrow> real \<Rightarrow> real \<Rightarrow> real \<Rightarrow> real \<Rightarrow> real \<Rightarrow> real \<Rightarrow> real \<Rightarrow> bool" where
  "check_collision x1 y1 w1 h1 x2 y2 w2 h2 =
     (x1 - w1 / 2 < x2 + w2 / 2 \<and>
      x1 + w1 / 2 > x2 - w2 / 2 \<and>
      y1 - h1 / 2 < y2 + h2 / 2 \<and>
      y1 + h1 / 2 > y2 - h2 / 2)"

subsection \<open>update_game: the step queue\<close>

text \<open>The sections of \<open>update_game\<close> are defined one by one, in the order of the source,
  and composed at the end.\<close>

definition update_step_queue :: "Statics \<Rightarrow> Statics" where
  "update_step_queue s =
     (if tongue_active (tongue (pyoro s)) then
        s\<lparr>s_pending_step_count := 0, s_pending_step_dir := 0\<rparr>
      else if s_pending_step_count s > 0 \<and> s_pending_step_dir s \<noteq> 0 then
        (let s1 = snd (apply_pyoro_step (s_pending_step_dir s) s);
             s2 = s1\<lparr>s_pending_step_count := s_pending_step_count s1 - 1\<rparr>
         in if s_pending_step_count s2 \<le> 0 then s2\<lparr>s_pending_step_dir := 0\<rparr> else s2)
      else s)"

subsection \<open>update_game: the tongue\<close>

text \<open>"Move caught bean with tongue": the first active caught bean takes the position of
  the tongue tip, then \<open>break\<close>.\<close>

function move_caught_loop :: "nat \<Rightarrow> Statics \<Rightarrow> Statics" where
  "move_caught_loop i s =
     (if i < 5 then
        (if active (beans s ! i) \<and> caught (beans s ! i) then
           s\<lparr>beans := (beans s)[i := (beans s ! i)\<lparr>bean_x := tongue_x (tongue (pyoro s)),
                                                    bean_y := tongue_y (tongue (pyoro s))\<rparr>]\<rparr>
         else move_caught_loop (i + 1) s)
      else s)"
  by pat_completeness auto
termination
  by (relation "measure (\<lambda>(i, s). 5 - i)") auto

declare move_caught_loop.simps [simp del]

text \<open>"Calculate score based on height".\<close>

definition score_add :: "real \<Rightarrow> int" where
  "score_add y =
     (if y < real_of_int GAME_HEIGHT * 0.2 then 1000
      else if y < real_of_int GAME_HEIGHT * 0.4 then 300
      else if y < real_of_int GAME_HEIGHT * 0.6 then 100
      else if y < real_of_int GAME_HEIGHT * 0.8 then 50
      else 10)"

text \<open>"Find the caught bean and check its type": for the first active caught bean, a pink
  bean calls the angel, the score grows, the bean is removed, then \<open>break\<close>.\<close>

function remove_caught_loop :: "nat \<Rightarrow> Statics \<Rightarrow> Statics" where
  "remove_caught_loop i s =
     (if i < 5 then
        (if active (beans s ! i) \<and> caught (beans s ! i) then
           (let caught_bean_type = bean_type (beans s ! i);
                s1 = (if caught_bean_type = BEAN_TYPE_PINK then
                        (let destroyed_block = find_destroyed_block s
                         in if destroyed_block \<ge> 0 then spawn_angel destroyed_block s else s)
                      else s);
                s2 = s1\<lparr>score := score s1 + score_add (tongue_y (tongue (pyoro s1)))\<rparr>
            in s2\<lparr>beans := (beans s2)[i := (beans s2 ! i)\<lparr>active := False\<rparr>]\<rparr>)
         else remove_caught_loop (i + 1) s)
      else s)"
  by pat_completeness auto
termination
  by (relation "measure (\<lambda>(i, s). 5 - i)") auto

declare remove_caught_loop.simps [simp del]

definition tongue_retract :: "real \<Rightarrow> Statics \<Rightarrow> Statics" where
  "tongue_retract dt s =
     (let retract_speed = TONGUE_SPEED * 2 * dt;
          t = tongue (pyoro s);
          t1 = t\<lparr>tongue_x := tongue_x t - real_of_int (tongue_direction t) * retract_speed,
                 tongue_y := tongue_y t + retract_speed\<rparr>;
          s1 = s\<lparr>pyoro := (pyoro s)\<lparr>tongue := t1\<rparr>\<rparr>;
          s2 = (if caught_bean (tongue (pyoro s1)) then move_caught_loop 0 s1 else s1)
      in if tongue_y (tongue (pyoro s2)) \<ge> pyoro_y (pyoro s2) then
           (let s3 = (if caught_bean (tongue (pyoro s2)) then remove_caught_loop 0 s2 else s2)
            in s3\<lparr>pyoro := (pyoro s3)\<lparr>tongue := (tongue (pyoro s3))\<lparr>tongue_active := False\<rparr>\<rparr>\<rparr>)
         else s2)"

text \<open>"Check for bean collision": the first active uncaught bean that the tongue tip
  overlaps is caught and the tongue turns back, then \<open>break\<close>.\<close>

function catch_loop :: "nat \<Rightarrow> Statics \<Rightarrow> Statics" where
  "catch_loop i s =
     (if i < 5 then
        (if active (beans s ! i) \<and> \<not> caught (beans s ! i) \<and>
            check_collision (tongue_x (tongue (pyoro s))) (tongue_y (tongue (pyoro s)))
              (real_of_int TONGUE_WIDTH) (real_of_int TONGUE_WIDTH)
              (bean_x (beans s ! i)) (bean_y (beans s ! i))
              (real_of_int BEAN_SIZE) (real_of_int BEAN_SIZE)
         then
           s\<lparr>beans := (beans s)[i := (beans s ! i)\<lparr>caught := True\<rparr>],
             pyoro := (pyoro s)\<lparr>tongue := (tongue (pyoro s))\<lparr>caught_bean := True,
                                                             going_back := True\<rparr>\<rparr>\<rparr>
         else catch_loop (i + 1) s)
      else s)"
  by pat_completeness auto
termination
  by (relation "measure (\<lambda>(i, s). 5 - i)") auto

declare catch_loop.simps [simp del]

definition tongue_extend :: "real \<Rightarrow> Statics \<Rightarrow> Statics" where
  "tongue_extend dt s =
     (let extend_speed = TONGUE_SPEED * dt;
          t = tongue (pyoro s);
          t1 = t\<lparr>tongue_x := tongue_x t + real_of_int (tongue_direction t) * extend_speed,
                 tongue_y := tongue_y t - extend_speed\<rparr>;
          s1 = s\<lparr>pyoro := (pyoro s)\<lparr>tongue := t1\<rparr>\<rparr>;
          s2 = catch_loop 0 s1
      in if tongue_x (tongue (pyoro s2)) < 0 \<or>
            tongue_x (tongue (pyoro s2)) > real_of_int GAME_WIDTH \<or>
            tongue_y (tongue (pyoro s2)) < 0
         then s2\<lparr>pyoro := (pyoro s2)\<lparr>tongue := (tongue (pyoro s2))\<lparr>going_back := True\<rparr>\<rparr>\<rparr>
         else s2)"

definition update_tongue :: "real \<Rightarrow> Statics \<Rightarrow> Statics" where
  "update_tongue dt s =
     (if tongue_active (tongue (pyoro s)) then
        (if going_back (tongue (pyoro s)) then tongue_retract dt s else tongue_extend dt s)
      else s)"

subsection \<open>update_game: the beans\<close>

text \<open>The body of the "Update beans" loop, statement by statement; \<open>dt\<close> is the scaled
  delta of the tick. First the bean falls.\<close>

definition bean_fall :: "real \<Rightarrow> nat \<Rightarrow> Statics \<Rightarrow> Statics" where
  "bean_fall dt i s =
     s\<lparr>beans := (beans s)[i := (beans s ! i)\<lparr>bean_y := bean_y (beans s ! i) +
                                BEAN_SPEED * speed (beans s ! i) * dt * game_speed s\<rparr>]\<rparr>"

text \<open>"Check collision with Pyoro": the test, and what a hit does.\<close>

definition bean_hits_pyoro :: "nat \<Rightarrow> Statics \<Rightarrow> bool" where
  "bean_hits_pyoro i s =
     (\<not> dead (pyoro s) \<and> \<not> tongue_active (tongue (pyoro s)) \<and>
      check_collision (pyoro_x (pyoro s)) (pyoro_y (pyoro s))
        (real_of_int PYORO_SIZE) (real_of_int PYORO_SIZE)
        (bean_x (beans s ! i)) (bean_y (beans s ! i))
        (real_of_int BEAN_SIZE) (real_of_int BEAN_SIZE))"

definition pyoro_dies :: "Statics \<Rightarrow> Statics" where
  "pyoro_dies s = s\<lparr>pyoro := (pyoro s)\<lparr>dead := True\<rparr>, death_timer := DEATH_DELAY\<rparr>"

text \<open>"Check collision with ground/blocks".\<close>

definition bean_ground :: "nat \<Rightarrow> Statics \<Rightarrow> Statics" where
  "bean_ground i s =
     (if bean_y (beans s ! i) \<ge> real_of_int GAME_HEIGHT - 1 then
        (let block_index = int_of_float (bean_x (beans s ! i));
             s1 = (if block_index \<ge> 0 \<and> block_index < GAME_WIDTH \<and>
                      exists (blocks s ! nat block_index)
                   then s\<lparr>blocks := (blocks s)[nat block_index :=
                           (blocks s ! nat block_index)\<lparr>exists := False\<rparr>]\<rparr>
                   else s)
         in s1\<lparr>beans := (beans s1)[i := (beans s1 ! i)\<lparr>active := False\<rparr>]\<rparr>)
      else s)"

text \<open>The loop. A bean that hits the character ends it (\<open>break\<close>); the beans after it
  are not visited in this tick.\<close>

function update_beans_loop :: "real \<Rightarrow> nat \<Rightarrow> Statics \<Rightarrow> Statics" where
  "update_beans_loop dt i s =
     (if i < 5 then
        (if active (beans s ! i) \<and> \<not> caught (beans s ! i) then
           (if bean_hits_pyoro i (bean_fall dt i s) then pyoro_dies (bean_fall dt i s)
            else update_beans_loop dt (i + 1) (bean_ground i (bean_fall dt i s)))
         else update_beans_loop dt (i + 1) s)
      else s)"
  by pat_completeness auto
termination
  by (relation "measure (\<lambda>(dt, i, s). 5 - i)") auto

declare update_beans_loop.simps [simp del]

definition update_beans :: "real \<Rightarrow> Statics \<Rightarrow> Statics" where
  "update_beans dt s = update_beans_loop dt 0 s"

subsection \<open>update_game: the angel\<close>

definition update_angel :: "real \<Rightarrow> Statics \<Rightarrow> Statics" where
  "update_angel dt s =
     (if angel_active (angel s) then
        (if \<not> going_up (angel s) then
           (let s1 = s\<lparr>angel := (angel s)\<lparr>angel_y := angel_y (angel s) + ANGEL_SPEED * dt\<rparr>\<rparr>
            in if angel_y (angel s1) \<ge> real_of_int GAME_HEIGHT - 1 then
                 (let block_idx = target_block_index (angel s1);
                      s2 = (if block_idx \<ge> 0 \<and> block_idx < GAME_WIDTH then
                              s1\<lparr>blocks := (blocks s1)[nat block_idx :=
                                   (blocks s1 ! nat block_idx)\<lparr>exists := True,
                                                                is_repairing := False\<rparr>]\<rparr>
                            else s1)
                  in s2\<lparr>angel := (angel s2)\<lparr>going_up := True\<rparr>\<rparr>)
               else s1)
         else
           (let s1 = s\<lparr>angel := (angel s)\<lparr>angel_y := angel_y (angel s) - ANGEL_SPEED * dt\<rparr>\<rparr>
            in if angel_y (angel s1) < 0 then s1\<lparr>angel := (angel s1)\<lparr>angel_active := False\<rparr>\<rparr>
               else s1))
      else s)"

subsection \<open>update_game: spawning beans and the background index\<close>

definition update_spawn :: "real \<Rightarrow> nat \<Rightarrow> nat \<Rightarrow> nat \<Rightarrow> Statics \<Rightarrow> Statics" where
  "update_spawn dt r1 r2 r3 s =
     (let s1 = s\<lparr>bean_spawn_timer := bean_spawn_timer s + dt\<rparr>
      in if bean_spawn_timer s1 \<ge> BEAN_SPAWN_FREQUENCY / game_speed s1
         then (spawn_bean r1 r2 r3 s1)\<lparr>bean_spawn_timer := 0\<rparr>
         else s1)"

definition update_background :: "Statics \<Rightarrow> Statics" where
  "update_background s =
     (if state s = GAME_STATE_PLAYING then
        (let new_bg0 = c_div (score s) SCORE_PER_BACKGROUND;
             new_bg = (if new_bg0 \<ge> NUM_BACKGROUNDS then NUM_BACKGROUNDS - 1 else new_bg0)
         in if new_bg \<noteq> s_background_index s then s\<lparr>s_background_index := new_bg\<rparr> else s)
      else s)"

subsection \<open>update_game\<close>

text \<open>The part of a tick that runs before the beans are updated: the scaled delta
  \<open>dt = delta_time * game_speed\<close> is computed from the speed at the start of the tick,
  then the speed grows, the step queue is drained, the frame counter is incremented and
  the tongue is updated.\<close>

definition scaled_delta :: "real \<Rightarrow> Statics \<Rightarrow> real" where
  "scaled_delta delta_time s = delta_time * game_speed s"

definition update_before_beans :: "real \<Rightarrow> Statics \<Rightarrow> Statics" where
  "update_before_beans delta_time s =
     (let dt = scaled_delta delta_time s;
          s1 = s\<lparr>game_speed := game_speed s + dt * SPEED_ACCELERATION\<rparr>;
          s2 = update_step_queue s1;
          s3 = s2\<lparr>s_frame_count := s_frame_count s2 + 1\<rparr>
      in update_tongue dt s3)"

definition update_after_beans :: "real \<Rightarrow> nat \<Rightarrow> nat \<Rightarrow> nat \<Rightarrow> Statics \<Rightarrow> Statics" where
  "update_after_beans dt r1 r2 r3 s =
     update_background (update_spawn dt r1 r2 r3 (update_angel dt s))"

definition update_game :: "real \<Rightarrow> nat \<Rightarrow> nat \<Rightarrow> nat \<Rightarrow> Statics \<Rightarrow> Statics" where
  "update_game delta_time r1 r2 r3 s =
     (if state s \<noteq> GAME_STATE_PLAYING \<or> game_paused s then s
      else if dead (pyoro s) then
        (let s1 = s\<lparr>death_timer := death_timer s - delta_time\<rparr>
         in if death_timer s1 \<le> 0 then
              (insert_high_score (score s1) (s1\<lparr>s_last_game_score := score s1\<rparr>))
                \<lparr>state := GAME_STATE_GAME_OVER\<rparr>
            else s1)
      else
        (let dt = scaled_delta delta_time s
         in update_after_beans dt r1 r2 r3
              (update_beans dt (update_before_beans delta_time s))))"

text \<open>The timer callback \<open>game_update\<close> runs one tick of 16 ms.\<close>

definition game_update :: "nat \<Rightarrow> nat \<Rightarrow> nat \<Rightarrow> Statics \<Rightarrow> Statics" where
  "game_update r1 r2 r3 s = update_game 0.016 r1 r2 r3 s"

subsection \<open>Button handlers\<close>

definition prv_select_click_handler :: "Statics \<Rightarrow> Statics" where
  "prv_select_click_handler s =
     (if state s = GAME_STATE_MENU then reset_game s
      else if state s = GAME_STATE_GAME_OVER then s\<lparr>state := GAME_STATE_MENU\<rparr>
      else if state s = GAME_STATE_PLAYING \<and> \<not> dead (pyoro s) then
        (if \<not> tongue_active (tongue (pyoro s)) then
           s\<lparr>s_pending_step_count := 0,
             s_pending_step_dir := 0,
             pyoro := (pyoro s)\<lparr>
               moving := False,
               tongue := (tongue (pyoro s))\<lparr>
                 tongue_active := True,
                 tongue_x := pyoro_x (pyoro s) +
                   (real_of_int PYORO_VISUAL_SIZE / 2 + 0.6) * real_of_int (direction (pyoro s)),
                 tongue_y := pyoro_y (pyoro s) - real_of_int PYORO_VISUAL_SIZE / 2 + 0.6,
                 tongue_direction := direction (pyoro s),
                 going_back := False,
                 caught_bean := False\<rparr>\<rparr>\<rparr>
         else s)
      else s)"

text \<open>The four direction handlers differ in the direction they request (\<open>-1\<close> for UP,
  \<open>1\<close> for DOWN) and in the number of steps they queue (1 for a click, 4 for a
  repeat).\<close>

definition prv_up_click_handler :: "Statics \<Rightarrow> Statics" where
  "prv_up_click_handler s =
     (if state s = GAME_STATE_PLAYING \<and> \<not> dead (pyoro s) \<and> \<not> tongue_active (tongue (pyoro s))
      then
        (let was_dir = direction (pyoro s);
             s1 = s\<lparr>pyoro := (pyoro s)\<lparr>direction := -1\<rparr>\<rparr>
         in if was_dir = 1 then s1\<lparr>s_pending_step_count := 0, s_pending_step_dir := 0\<rparr>
            else
              (let s2 = s1\<lparr>s_pending_step_dir := -1,
                          s_pending_step_count := s_pending_step_count s1 + 1\<rparr>
               in if s_pending_step_count s2 > PYORO_PENDING_STEPS_MAX
                  then s2\<lparr>s_pending_step_count := PYORO_PENDING_STEPS_MAX\<rparr> else s2))
      else s)"

definition prv_down_click_handler :: "Statics \<Rightarrow> Statics" where
  "prv_down_click_handler s =
     (if state s = GAME_STATE_PLAYING \<and> \<not> dead (pyoro s) \<and> \<not> tongue_active (tongue (pyoro s))
      then
        (let was_dir = direction (pyoro s);
             s1 = s\<lparr>pyoro := (pyoro s)\<lparr>direction := 1\<rparr>\<rparr>
         in if was_dir = -1 then s1\<lparr>s_pending_step_count := 0, s_pending_step_dir := 0\<rparr>
            else
              (let s2 = s1\<lparr>s_pending_step_dir := 1,
                          s_pending_step_count := s_pending_step_count s1 + 1\<rparr>
               in if s_pending_step_count s2 > PYORO_PENDING_STEPS_MAX
                  then s2\<lparr>s_pending_step_count := PYORO_PENDING_STEPS_MAX\<rparr> else s2))
      else s)"

definition prv_up_repeating_click_handler :: "Statics \<Rightarrow> Statics" where
  "prv_up_repeating_click_handler s =
     (if state s = GAME_STATE_PLAYING \<and> \<not> dead (pyoro s) \<and> \<not> tongue_active (tongue (pyoro s))
      then
        (let was_dir = direction (pyoro s);
             s1 = s\<lparr>pyoro := (pyoro s)\<lparr>direction := -1\<rparr>\<rparr>
         in if was_dir = 1 then s1\<lparr>s_pending_step_count := 0, s_pending_step_dir := 0\<rparr>
            else
              (let s2 = s1\<lparr>s_pending_step_dir := -1,
                          s_pending_step_count := s_pending_step_count s1 + 4\<rparr>
               in if s_pending_step_count s2 > PYORO_PENDING_STEPS_MAX
                  then s2\<lparr>s_pending_step_count := PYORO_PENDING_STEPS_MAX\<rparr> else s2))
      else s)"

definition prv_down_repeating_click_handler :: "Statics \<Rightarrow> Statics" where
  "prv_down_repeating_click_handler s =
     (if state s = GAME_STATE_PLAYING \<and> \<not> dead (pyoro s) \<and> \<not> tongue_active (tongue (pyoro s))
      then
        (let was_dir = direction (pyoro s);
             s1 = s\<lparr>pyoro := (pyoro s)\<lparr>direction := 1\<rparr>\<rparr>
         in if was_dir = -1 then s1\<lparr>s_pending_step_count := 0, s_pending_step_dir := 0\<rparr>
            else
              (let s2 = s1\<lparr>s_pending_step_dir := 1,
                          s_pending_step_count := s_pending_step_count s1 + 4\<rparr>
               in if s_pending_step_count s2 > PYORO_PENDING_STEPS_MAX
                  then s2\<lparr>s_pending_step_count := PYORO_PENDING_STEPS_MAX\<rparr> else s2))
      else s)"

subsection \<open>Program start and reachable states\<close>

text \<open>Statics are zero-initialised. \<open>prv_window_load\<close> loads the high scores and calls
  \<open>init_game\<close>; \<open>stored\<close> is the array in the persistent store, if there is one
  (\<open>persist_read_data\<close> overwrites as many slots as were stored).\<close>

definition zero_statics :: Statics where
  "zero_statics =
     \<lparr>state = GAME_STATE_MENU,
      pyoro = \<lparr>pyoro_x = 0, pyoro_y = 0, direction = 0, moving = False, dead = False,
               button_held = False,
               tongue = \<lparr>tongue_active = False, tongue_x = 0, tongue_y = 0,
                         tongue_direction = 0, going_back = False, caught_bean = False\<rparr>\<rparr>,
      beans = replicate 5 \<lparr>bean_x = 0, bean_y = 0, speed = 0, active = False,
                            caught = False, bean_type = BEAN_TYPE_GREEN\<rparr>,
      blocks = replicate (nat GAME_WIDTH) \<lparr>exists = False, is_repairing = False\<rparr>,
      angel = \<lparr>angel_x = 0, angel_y = 0, angel_active = False, target_block_index = 0,
               going_up = False\<rparr>,
      score = 0, game_speed = 0, bean_spawn_timer = 0, death_timer = 0,
      game_paused = False,
      s_background_index = 0,
      s_high_scores = replicate (nat NUM_HIGH_SCORES) 0,
      s_last_game_score = 0,
      s_frame_count = 0,
      s_pending_step_dir = 0,
      s_pending_step_count = 0\<rparr>"

definition load_high_scores :: "int list option \<Rightarrow> Statics \<Rightarrow> Statics" where
  "load_high_scores stored s =
     (let empty = replicate (nat NUM_HIGH_SCORES) HIGH_SCORE_EMPTY
      in case stored of
           None \<Rightarrow> s\<lparr>s_high_scores := empty\<rparr>
         | Some hs \<Rightarrow>
             s\<lparr>s_high_scores := take (nat NUM_HIGH_SCORES) hs @ drop (length hs) empty\<rparr>)"

definition prv_window_load :: "int list option \<Rightarrow> Statics" where
  "prv_window_load stored = init_game (load_high_scores stored zero_statics)"

text \<open>What can happen to the running program: a tick of the timer (\<open>update_game\<close> with
  its delta time and the values \<open>rand()\<close> returns in it) or a button event.\<close>

datatype event =
  Tick real nat nat nat
| Select
| Up
| Down
| UpRepeat
| DownRepeat

fun handle_event :: "event \<Rightarrow> Statics \<Rightarrow> Statics" where
  "handle_event (Tick delta_time r1 r2 r3) s = update_game delta_time r1 r2 r3 s"
| "handle_event Select s = prv_select_click_handler s"
| "handle_event Up s = prv_up_click_handler s"
| "handle_event Down s = prv_down_click_handler s"
| "handle_event UpRepeat s = prv_up_repeating_click_handler s"
| "handle_event DownRepeat s = prv_down_repeating_click_handler s"

fun run :: "event list \<Rightarrow> Statics \<Rightarrow> Statics" where
  "run [] s = s"
| "run (e # es) s = run es (handle_event e s)"

inductive reachable :: "Statics \<Rightarrow> bool" where
  start: "reachable (prv_window_load stored)"
| step: "reachable s \<Longrightarrow> reachable (handle_event e s)"

subsection \<open>Concrete states used as examples\<close>

text \<open>A game that has just been started from the menu.\<close>

definition playing_state :: Statics where
  "playing_state = prv_select_click_handler (prv_window_load None)"

text \<open>The same, with the block of column 3 destroyed.\<close>

definition broken_block_state :: Statics where
  "broken_block_state =
     playing_state\<lparr>blocks := (blocks playing_state)[3 := \<lparr>exists = False, is_repairing = False\<rparr>]\<rparr>"

subsection \<open>High-score table: the rule of insertion in words\<close>

text \<open>An entry keeps its rank ahead of a new score \<open>sc\<close> when it is not empty and is at
  least \<open>sc\<close>: the new score goes after every such leading entry, so after an equal one.\<close>

definition keeps_rank :: "int \<Rightarrow> int \<Rightarrow> bool" where
  "keeps_rank sc e = (e \<noteq> HIGH_SCORE_EMPTY \<and> sc \<le> e)"

text \<open>A state whose table is full.\<close>

definition full_table_state :: Statics where
  "full_table_state =
     playing_state\<lparr>s_high_scores := [1000, 900, 800, 700, 600, 500, 400, 300, 200, 100]\<rparr>"

subsection \<open>Vocabulary for the properties\<close>

text \<open>A bean is held by the tongue when it is active and its \<open>caught\<close> flag is set.\<close>

definition held :: "Bean \<Rightarrow> bool" where
  "held b = (active b \<and> caught b)"

text \<open>The test of the "Check for bean collision" loop: an active uncaught bean that
  overlaps the tongue tip.\<close>

definition catchable :: "Statics \<Rightarrow> Bean \<Rightarrow> bool" where
  "catchable s b =
     (active b \<and> \<not> caught b \<and>
      check_collision (tongue_x (tongue (pyoro s))) (tongue_y (tongue (pyoro s)))
        (real_of_int TONGUE_WIDTH) (real_of_int TONGUE_WIDTH)
        (bean_x b) (bean_y b) (real_of_int BEAN_SIZE) (real_of_int BEAN_SIZE))"

text \<open>The step queue in words: the candidate position of a step is the position moved by
  one \<open>PYORO_SINGLE_STEP\<close> and clamped to the stage; the columns under the character's
  footprint there are those from \<open>(int)(x - PYORO_SIZE/2)\<close> to \<open>(int)(x + PYORO_SIZE/2)\<close>
  that lie on the grid; the step is rejected when one of them has no block.\<close>

definition candidate_x :: "int \<Rightarrow> Statics \<Rightarrow> real" where
  "candidate_x step_dir s =
     max (real_of_int PYORO_SIZE / 2)
       (min (real_of_int GAME_WIDTH - real_of_int PYORO_SIZE / 2)
          (pyoro_x (pyoro s) + real_of_int step_dir * PYORO_SINGLE_STEP))"

definition footprint_columns :: "real \<Rightarrow> int list" where
  "footprint_columns x =
     filter (\<lambda>c. 0 \<le> c \<and> c < GAME_WIDTH)
       [int_of_float (x - real_of_int PYORO_SIZE / 2) ..
        int_of_float (x + real_of_int PYORO_SIZE / 2)]"

definition step_rejected :: "int \<Rightarrow> Statics \<Rightarrow> bool" where
  "step_rejected step_dir s =
     (\<exists>c \<in> set (footprint_columns (candidate_x step_dir s)). \<not> exists (blocks s ! nat c))"

definition on_stage :: "Statics \<Rightarrow> bool" where
  "on_stage s =
     (real_of_int PYORO_SIZE / 2 \<le> pyoro_x (pyoro s) \<and>
      pyoro_x (pyoro s) \<le> real_of_int GAME_WIDTH - real_of_int PYORO_SIZE / 2)"

text \<open>A game in which one step to the right is queued, and the same with the block of
  column 11 missing.\<close>

definition one_step_state :: Statics where
  "one_step_state = prv_down_click_handler playing_state"


text \<open>The height of the tongue tip after the retraction of a tick with delta time
  \<open>delta_time\<close>: the tip moves down by \<open>TONGUE_SPEED * 2 * dt\<close>.\<close>

definition retracted_y :: "real \<Rightarrow> Statics \<Rightarrow> real" where
  "retracted_y delta_time s =
     tongue_y (tongue (pyoro s)) + TONGUE_SPEED * 2 * scaled_delta delta_time s"


text \<open>The state with bean \<open>b\<close> written into slot \<open>i\<close> of the bean array.\<close>

definition put_bean :: "nat \<Rightarrow> Bean \<Rightarrow> Statics \<Rightarrow> Statics" where
  "put_bean i b s = s\<lparr>beans := (beans s)[i := b]\<rparr>"

subsection \<open>A short game\<close>

text \<open>The states of a game in which a bean breaks the block of column 0, a pink bean is
  caught and the angel repairs the block. Each state is the result of \<open>handle_event\<close> on
  the one before (lemma \<open>short_game_steps\<close>); the events are
  \<open>Select, Tick 2 0 0 0, Tick 20 15 50 0, Tick 5 0 0 4, Select, Tick 0.1 0 0 0,
  Tick 0.1 0 0 0, Tick 0.5 0 0 0\<close>.\<close>

text \<open>After \<open>Tick 2 0 0 0\<close>: a green bean has spawned in column 0.\<close>

definition st_spawned :: Statics where
  "st_spawned =
     playing_state\<lparr>
       game_speed := 1.02, s_frame_count := 1,
       beans := (beans playing_state)
         [0 := \<lparr>bean_x = 0.5, bean_y = 0, speed = 0.5, active = True, caught = False,
                bean_type = BEAN_TYPE_GREEN\<rparr>]\<rparr>"

text \<open>After \<open>Tick 20 15 50 0\<close>: the bean has landed and broken block 0; a pink bean has
  spawned in column 15.\<close>

definition st_broken :: Statics where
  "st_broken =
     st_spawned\<lparr>
       game_speed := 1.224, s_frame_count := 2,
       blocks := (blocks st_spawned)[0 := \<lparr>exists = False, is_repairing = False\<rparr>],
       beans := (beans st_spawned)
         [0 := \<lparr>bean_x = 15.5, bean_y = 0, speed = 1, active = True, caught = False,
                bean_type = BEAN_TYPE_PINK\<rparr>]\<rparr>"

text \<open>After \<open>Tick 5 0 0 4\<close>: the pink bean has fallen; a second green bean has spawned.\<close>

definition st_pink_low :: Statics where
  "st_pink_low =
     st_broken\<lparr>
       game_speed := 1.2852, s_frame_count := 3,
       beans := (beans st_broken)
         [0 := \<lparr>bean_x = 15.5, bean_y = 14.1577632, speed = 1, active = True, caught = False,
                bean_type = BEAN_TYPE_PINK\<rparr>,
          1 := \<lparr>bean_x = 0.5, bean_y = 0, speed = 0.5, active = True, caught = False,
                bean_type = BEAN_TYPE_GREEN\<rparr>]\<rparr>"

text \<open>After \<open>Select\<close>: the tongue is out.\<close>

definition st_tongue_out :: Statics where
  "st_tongue_out =
     st_pink_low\<lparr>
       pyoro := (pyoro st_pink_low)\<lparr>
         tongue := \<lparr>tongue_active = True, tongue_x = 13.1, tongue_y = 16.1,
                    tongue_direction = 1, going_back = False, caught_bean = False\<rparr>\<rparr>\<rparr>"

text \<open>After \<open>Tick 0.1 0 0 0\<close>: the tongue has caught the pink bean.\<close>

definition st_caught :: Statics where
  "st_caught =
     st_tongue_out\<lparr>
       game_speed := 1.2864852, s_frame_count := 4, bean_spawn_timer := 0.12852,
       pyoro := (pyoro st_tongue_out)\<lparr>
         tongue := \<lparr>tongue_active = True, tongue_x = 15.0278, tongue_y = 14.1722,
                    tongue_direction = 1, going_back = True, caught_bean = True\<rparr>\<rparr>,
       beans := (beans st_tongue_out)
         [0 := \<lparr>bean_x = 15.5, bean_y = 14.1577632, speed = 1, active = True, caught = True,
                bean_type = BEAN_TYPE_PINK\<rparr>,
          1 := \<lparr>bean_x = 0.5, bean_y = 0.1488051701136, speed = 0.5, active = True,
                caught = False, bean_type = BEAN_TYPE_GREEN\<rparr>]\<rparr>"

text \<open>After \<open>Tick 0.1 0 0 0\<close>: the tongue is back, the bean is removed, the angel has
  been called for block 0 and is on its way down.\<close>

definition st_angel_down :: Statics where
  "st_angel_down =
     st_caught\<lparr>
       game_speed := 1.2877716852, s_frame_count := 5, bean_spawn_timer := 0.25716852,
       score := 10,
       pyoro := (pyoro st_caught)\<lparr>
         tongue := \<lparr>tongue_active = False, tongue_x = 11.1683444, tongue_y = 18.0316556,
                    tongue_direction = 1, going_back = True, caught_bean = True\<rparr>\<rparr>,
       beans := (beans st_caught)
         [0 := \<lparr>bean_x = 11.1683444, bean_y = 18.0316556, speed = 1, active = False,
                caught = True, bean_type = BEAN_TYPE_PINK\<rparr>,
          1 := \<lparr>bean_x = 0.5, bean_y = 0.2979080993725973136, speed = 0.5, active = True,
                caught = False, bean_type = BEAN_TYPE_GREEN\<rparr>],
       blocks := (blocks st_caught)[0 := \<lparr>exists = False, is_repairing = True\<rparr>],
       angel := \<lparr>angel_x = 0.5, angel_y = 4.5026982, angel_active = True,
                  target_block_index = 0, going_up = False\<rparr>\<rparr>"

text \<open>After \<open>Tick 0.5 0 0 0\<close>: the angel has repaired the block and is on its way up.\<close>

definition st_angel_up :: Statics where
  "st_angel_up =
     st_angel_down\<lparr>
       game_speed := 1.294210543626, s_frame_count := 6, bean_spawn_timer := 0.9010543626,
       beans := (beans st_angel_down)
         [1 := \<lparr>bean_x = 0.5, bean_y = 1.04789956111858527594084, speed = 0.5,
                active = True, caught = False, bean_type = BEAN_TYPE_GREEN\<rparr>],
       blocks := (blocks st_angel_down)[0 := \<lparr>exists = True, is_repairing = False\<rparr>],
       angel := \<lparr>angel_x = 0.5, angel_y = 27.038702691, angel_active = True,
                  target_block_index = 0, going_up = True\<rparr>\<rparr>"

subsection \<open>Invariants\<close>

text \<open>The angel and the blocks: a descending angel has a valid target whose
  \<open>is_repairing\<close> flag is set, and no other block has the flag set.\<close>

definition angel_inv :: "Statics \<Rightarrow> bool" where
  "angel_inv s =
     (length (blocks s) = nat GAME_WIDTH \<and>
      (angel_active (angel s) \<and> \<not> going_up (angel s) \<longrightarrow>
         0 \<le> target_block_index (angel s) \<and> target_block_index (angel s) < GAME_WIDTH \<and>
         is_repairing (blocks s ! nat (target_block_index (angel s)))) \<and>
      (\<forall>j < nat GAME_WIDTH. is_repairing (blocks s ! j) \<longrightarrow>
         angel_active (angel s) \<and> \<not> going_up (angel s) \<and>
         target_block_index (angel s) = int j))"

text \<open>The tongue and the beans: at most one bean is held, a bean is held exactly when
  the tongue is active with its \<open>caught_bean\<close> flag set, and then the tongue is going
  back.\<close>

definition catch_inv :: "Statics \<Rightarrow> bool" where
  "catch_inv s =
     (length (beans s) = 5 \<and>
      (\<forall>i<5. \<forall>j<5. held (beans s ! i) \<and> held (beans s ! j) \<longrightarrow> i = j) \<and>
      ((\<exists>i<5. held (beans s ! i)) =
         (tongue_active (tongue (pyoro s)) \<and> caught_bean (tongue (pyoro s)))) \<and>
      (tongue_active (tongue (pyoro s)) \<and> caught_bean (tongue (pyoro s)) \<longrightarrow>
         going_back (tongue (pyoro s))))"

section \<open>Properties\<close>

named_theorems game_consts \<open>the values of the #define constants\<close>

lemmas [game_consts] =
  GAME_WIDTH_def GAME_HEIGHT_def PYORO_SIZE_def PYORO_VISUAL_SIZE_def BEAN_SIZE_def
  TONGUE_WIDTH_def TONGUE_SPEED_def BEAN_SPEED_def PYORO_SINGLE_STEP_def
  PYORO_PENDING_STEPS_MAX_def BEAN_SPAWN_FREQUENCY_def SPEED_ACCELERATION_def
  DEATH_DELAY_def ANGEL_SPEED_def NUM_BACKGROUNDS_def SCORE_PER_BACKGROUND_def
  NUM_HIGH_SCORES_def HIGH_SCORE_EMPTY_def

lemmas start_defs =
  playing_state_def prv_select_click_handler_def reset_game_def init_game_def
  prv_window_load_def load_high_scores_def zero_statics_def

subsection \<open>spawn_angel\<close>

lemma broken_block_state_blocks:
  "length (blocks broken_block_state) = 20"
  "blocks broken_block_state ! 3 = \<lparr>exists = False, is_repairing = False\<rparr>"
  "\<not> angel_active (angel broken_block_state)"
  by (simp_all add: broken_block_state_def start_defs GAME_WIDTH_def)

text \<open>
  Claim C4. \<open>spawn_angel block_index\<close> returns the state unchanged when the index is
  outside \<open>[0, GAME_WIDTH)\<close>, when the target block exists, when it is already being
  repaired, or when the angel is active. Otherwise the angel becomes active at
  \<open>(block_index + 0.5, 0)\<close>, descending, with \<open>block_index\<close> as its target, the target
  block's \<open>is_repairing\<close> flag is set, and nothing else changes.
\<close>

theorem spawn_angel_spec:
  "(block_index < 0 \<or> block_index \<ge> GAME_WIDTH \<or> exists (blocks s ! nat block_index) \<or>
      is_repairing (blocks s ! nat block_index) \<or> angel_active (angel s)
        \<longrightarrow> spawn_angel block_index s = s) \<and>
   (\<not> (block_index < 0 \<or> block_index \<ge> GAME_WIDTH \<or> exists (blocks s ! nat block_index) \<or>
      is_repairing (blocks s ! nat block_index) \<or> angel_active (angel s))
        \<longrightarrow> spawn_angel block_index s =
              s\<lparr>angel := \<lparr>angel_x = real_of_int block_index + 0.5, angel_y = 0,
                           angel_active = True, target_block_index = block_index,
                           going_up = False\<rparr>,
                blocks := (blocks s)[nat block_index :=
                             (blocks s ! nat block_index)\<lparr>is_repairing := True\<rparr>]\<rparr>) \<and>
   (length (blocks s) = nat GAME_WIDTH \<and>
    \<not> (block_index < 0 \<or> block_index \<ge> GAME_WIDTH \<or> exists (blocks s ! nat block_index) \<or>
      is_repairing (blocks s ! nat block_index) \<or> angel_active (angel s))
        \<longrightarrow> is_repairing (blocks (spawn_angel block_index s) ! nat block_index) \<and>
            exists (blocks (spawn_angel block_index s) ! nat block_index)
              = exists (blocks s ! nat block_index) \<and>
            (\<forall>j. j \<noteq> nat block_index \<longrightarrow>
               blocks (spawn_angel block_index s) ! j = blocks s ! j))"
  by (auto simp: spawn_angel_def GAME_WIDTH_def)

theorem spawn_angel_spec_witness:
  "spawn_angel 25 broken_block_state = broken_block_state \<and>
   angel_active (angel (spawn_angel 3 broken_block_state)) \<and>
   target_block_index (angel (spawn_angel 3 broken_block_state)) = 3 \<and>
   is_repairing (blocks (spawn_angel 3 broken_block_state) ! 3)"
proof -
  have out: "(25::int) < 0 \<or> GAME_WIDTH \<le> 25 \<or> exists (blocks broken_block_state ! nat 25) \<or>
      is_repairing (blocks broken_block_state ! nat 25) \<or> angel_active (angel broken_block_state)"
    by (simp add: GAME_WIDTH_def)
  have ok: "\<not> ((3::int) < 0 \<or> GAME_WIDTH \<le> 3 \<or> exists (blocks broken_block_state ! nat 3) \<or>
      is_repairing (blocks broken_block_state ! nat 3) \<or> angel_active (angel broken_block_state))"
    by (simp add: GAME_WIDTH_def broken_block_state_blocks)
  have len: "length (blocks broken_block_state) = nat GAME_WIDTH"
    by (simp add: GAME_WIDTH_def broken_block_state_blocks)
  from spawn_angel_spec [of 25 broken_block_state] out
  have "spawn_angel 25 broken_block_state = broken_block_state" by blast
  moreover from spawn_angel_spec [of 3 broken_block_state] ok len
  have "spawn_angel 3 broken_block_state =
          broken_block_state\<lparr>angel := \<lparr>angel_x = real_of_int 3 + 0.5, angel_y = 0,
                           angel_active = True, target_block_index = 3,
                           going_up = False\<rparr>,
                blocks := (blocks broken_block_state)[nat 3 :=
                             (blocks broken_block_state ! nat 3)\<lparr>is_repairing := True\<rparr>]\<rparr>"
    and "is_repairing (blocks (spawn_angel 3 broken_block_state) ! nat 3)"
    by blast+
  ultimately show ?thesis by simp
qed

subsection \<open>Direction buttons: turning in place\<close>

lemma playing_state_facts:
  "state playing_state = GAME_STATE_PLAYING" "\<not> dead (pyoro playing_state)"
  "\<not> tongue_active (tongue (pyoro playing_state))" "direction (pyoro playing_state) = 1"
  by (simp_all add: start_defs)

text \<open>
  Claim C8. While Playing, with the character alive and the tongue inactive, a press of
  the button that requests the direction opposite to the facing (UP when facing right,
  DOWN when facing left; single click or repeat) flips the facing, sets the pending step
  count to 0 and the pending direction to 0 (none), queues no step, and changes nothing
  else; in particular the position is unchanged.
\<close>

theorem turn_in_place:
  assumes "state s = GAME_STATE_PLAYING" and "\<not> dead (pyoro s)"
    and "\<not> tongue_active (tongue (pyoro s))"
  shows "(direction (pyoro s) = 1 \<longrightarrow>
           prv_up_click_handler s =
             s\<lparr>pyoro := (pyoro s)\<lparr>direction := -1\<rparr>,
               s_pending_step_count := 0, s_pending_step_dir := 0\<rparr> \<and>
           prv_up_repeating_click_handler s = prv_up_click_handler s \<and>
           pyoro_x (pyoro (prv_up_click_handler s)) = pyoro_x (pyoro s) \<and>
           pyoro_y (pyoro (prv_up_click_handler s)) = pyoro_y (pyoro s)) \<and>
         (direction (pyoro s) = -1 \<longrightarrow>
           prv_down_click_handler s =
             s\<lparr>pyoro := (pyoro s)\<lparr>direction := 1\<rparr>,
               s_pending_step_count := 0, s_pending_step_dir := 0\<rparr> \<and>
           prv_down_repeating_click_handler s = prv_down_click_handler s \<and>
           pyoro_x (pyoro (prv_down_click_handler s)) = pyoro_x (pyoro s) \<and>
           pyoro_y (pyoro (prv_down_click_handler s)) = pyoro_y (pyoro s))"
  using assms
  by (simp add: prv_up_click_handler_def prv_down_click_handler_def
        prv_up_repeating_click_handler_def prv_down_repeating_click_handler_def Let_def)

theorem turn_in_place_witness:
  "direction (pyoro (prv_up_click_handler playing_state)) = -1 \<and>
   s_pending_step_count (prv_up_click_handler playing_state) = 0 \<and>
   s_pending_step_dir (prv_up_click_handler playing_state) = 0 \<and>
   pyoro_x (pyoro (prv_up_click_handler playing_state)) = 10 \<and>
   direction (pyoro (prv_down_click_handler (prv_up_click_handler playing_state))) = 1 \<and>
   s_pending_step_count (prv_down_click_handler (prv_up_click_handler playing_state)) = 0"
proof -
  have up: "prv_up_click_handler playing_state =
      playing_state\<lparr>pyoro := (pyoro playing_state)\<lparr>direction := -1\<rparr>,
               s_pending_step_count := 0, s_pending_step_dir := 0\<rparr>"
    using turn_in_place [of playing_state] playing_state_facts by blast
  have x: "pyoro_x (pyoro playing_state) = 10"
    by (simp add: start_defs GAME_WIDTH_def)
  let ?t = "prv_up_click_handler playing_state"
  have t: "state ?t = GAME_STATE_PLAYING" "\<not> dead (pyoro ?t)"
    "\<not> tongue_active (tongue (pyoro ?t))" "direction (pyoro ?t) = -1"
    by (simp_all add: up playing_state_facts)
  have down: "prv_down_click_handler ?t =
      ?t\<lparr>pyoro := (pyoro ?t)\<lparr>direction := 1\<rparr>,
               s_pending_step_count := 0, s_pending_step_dir := 0\<rparr>"
    using turn_in_place [of ?t] t by blast
  show ?thesis
    by (simp add: down) (simp add: up x)
qed

subsection \<open>insert_high_score\<close>

lemma keeps_rank_iff:
  "(e = HIGH_SCORE_EMPTY \<or> sc > e) = (\<not> keeps_rank sc e)"
  by (auto simp: keeps_rank_def)

lemma find_insert_at_takeWhile:
  assumes "length hs = nat NUM_HIGH_SCORES" and "0 \<le> i" and "i \<le> NUM_HIGH_SCORES"
  shows "find_insert_at hs sc i =
           (let k = i + int (length (takeWhile (keeps_rank sc) (drop (nat i) hs)))
            in if k < NUM_HIGH_SCORES then k else -1)"
  using assms
proof (induction hs sc i rule: find_insert_at.induct)
  case (1 hs sc i)
  show ?case
  proof (cases "i < NUM_HIGH_SCORES")
    case False
    with 1 show ?thesis by (subst find_insert_at.simps) simp
  next
    case True
    with 1 have d: "drop (nat i) hs = hs ! nat i # drop (nat (i + 1)) hs"
      by (simp add: Cons_nth_drop_Suc nat_add_distrib)
    show ?thesis
    proof (cases "keeps_rank sc (hs ! nat i)")
      case True
      with 1 \<open>i < NUM_HIGH_SCORES\<close> d show ?thesis
        by (subst find_insert_at.simps) (auto simp: keeps_rank_iff Let_def)
    next
      case False
      with 1 \<open>i < NUM_HIGH_SCORES\<close> d show ?thesis
        by (subst find_insert_at.simps) (auto simp: keeps_rank_iff Let_def)
    qed
  qed
qed

lemma shift_scores_length [simp]: "length (shift_scores hs i k) = length hs"
  by (induction hs i k rule: shift_scores.induct) (subst shift_scores.simps, simp)

lemma shift_scores_nth:
  assumes "0 \<le> k" and "k \<le> i" and "nat i < length hs"
  shows "shift_scores hs i k ! j =
           (if nat k < j \<and> j \<le> nat i then hs ! (j - 1) else hs ! j)"
  using assms
proof (induction hs i k arbitrary: j rule: shift_scores.induct)
  case (1 hs i k)
  show ?case
  proof (cases "i > k")
    case False
    with 1 show ?thesis by (subst shift_scores.simps) auto
  next
    case True
    with 1 have "shift_scores (hs[nat i := hs ! nat (i - 1)]) (i - 1) k ! j =
       (if nat k < j \<and> j \<le> nat (i - 1) then hs[nat i := hs ! nat (i - 1)] ! (j - 1)
        else hs[nat i := hs ! nat (i - 1)] ! j)"
      by simp
    with True 1(2-) show ?thesis
      by (subst shift_scores.simps) (auto simp: nth_list_update nat_diff_distrib)
  qed
qed

lemma insert_high_score_closed:
  assumes len: "length (s_high_scores s) = nat NUM_HIGH_SCORES"
  shows "insert_high_score sc s =
           s\<lparr>s_high_scores :=
                take (nat NUM_HIGH_SCORES)
                  (takeWhile (keeps_rank sc) (s_high_scores s) @
                   sc # dropWhile (keeps_rank sc) (s_high_scores s))\<rparr>"
proof -
  define hs where "hs = s_high_scores s"
  define k where "k = length (takeWhile (keeps_rank sc) hs)"
  have len': "length hs = 10" using len by (simp add: hs_def NUM_HIGH_SCORES_def)
  have kle: "k \<le> 10" unfolding k_def using length_takeWhile_le [of "keeps_rank sc" hs] len' by simp
  have tw: "takeWhile (keeps_rank sc) hs = take k hs"
    unfolding k_def by (rule takeWhile_eq_take)
  have dw: "dropWhile (keeps_rank sc) hs = drop k hs"
    unfolding k_def by (rule dropWhile_eq_drop)
  have fi: "find_insert_at hs sc 0 = (if k < 10 then int k else -1)"
    using find_insert_at_takeWhile [of hs 0 sc] len'
    by (simp add: NUM_HIGH_SCORES_def Let_def k_def)
  have closed: "(if k < 10 then (shift_scores hs 9 (int k))[k := sc] else hs) =
          take 10 (take k hs @ sc # drop k hs)" (is "?L = ?R")
  proof (cases "k < 10")
    case False
    with kle len' show ?thesis by simp
  next
    case True
    have "(shift_scores hs 9 (int k))[k := sc] = ?R"
    proof (rule nth_equalityI)
      show "length ((shift_scores hs 9 (int k))[k := sc]) = length ?R"
        using len' True by simp
    next
      fix j assume "j < length ((shift_scores hs 9 (int k))[k := sc])"
      then have j: "j < 10" using len' by simp
      have sh: "shift_scores hs 9 (int k) ! j =
           (if k < j \<and> j \<le> 9 then hs ! (j - 1) else hs ! j)"
        using shift_scores_nth [of "int k" 9 hs j] True len' by simp
      show "(shift_scores hs 9 (int k))[k := sc] ! j = ?R ! j"
        using j True len' sh
        by (auto simp: nth_list_update nth_append nth_Cons')
    qed
    with True show ?thesis by simp
  qed
  have "insert_high_score sc s =
          s\<lparr>s_high_scores := (if k < 10 then (shift_scores hs 9 (int k))[k := sc] else hs)\<rparr>"
    using fi by (simp add: insert_high_score_def Let_def hs_def [symmetric] NUM_HIGH_SCORES_def)
  then show ?thesis
    by (simp only: closed) (simp add: tw dw hs_def [symmetric] NUM_HIGH_SCORES_def)
qed

lemma sorted_insert_rank:
  assumes "sorted_wrt (\<ge>) hs" and "HIGH_SCORE_EMPTY \<le> sc"
  shows "sorted_wrt (\<ge>) (takeWhile (keeps_rank sc) hs @ sc # dropWhile (keeps_rank sc) hs)"
proof -
  have a: "sorted_wrt (\<ge>) (takeWhile (keeps_rank sc) hs)"
    using assms(1) by (metis sorted_wrt_append takeWhile_dropWhile_id)
  have b: "sorted_wrt (\<ge>) (dropWhile (keeps_rank sc) hs)"
    using assms(1) by (metis sorted_wrt_append takeWhile_dropWhile_id)
  have c: "\<forall>x\<in>set (takeWhile (keeps_rank sc) hs). sc \<le> x"
    by (auto dest: set_takeWhileD simp: keeps_rank_def)
  have d: "\<forall>y\<in>set (dropWhile (keeps_rank sc) hs). y \<le> sc"
  proof (cases "dropWhile (keeps_rank sc) hs")
    case Nil
    show ?thesis unfolding Nil by simp
  next
    case (Cons z zs)
    then have "\<not> keeps_rank sc z" by (metis hd_dropWhile list.sel(1) list.distinct(1))
    with assms(2) have "z \<le> sc" by (auto simp: keeps_rank_def)
    moreover from b Cons have "\<forall>y\<in>set zs. y \<le> z" by simp
    ultimately show ?thesis using Cons by auto
  qed
  from c d have "\<forall>x\<in>set (takeWhile (keeps_rank sc) hs).
                   \<forall>y\<in>set (dropWhile (keeps_rank sc) hs). y \<le> x"
    by (meson order_trans)
  with a b c d show ?thesis
    by (auto simp: sorted_wrt_append)
qed

text \<open>
  Claim C5. \<open>insert_high_score\<close> on a table of \<open>NUM_HIGH_SCORES = 10\<close> slots puts the
  score after the leading entries that are non-empty and at least as large (so after an
  earlier equal entry), shifts the rest down and drops what falls off the end; nothing
  else in the state changes. A table sorted in descending order stays sorted. Inserting
  50, then 200, then 75 into the all-EMPTY table gives \<open>[200, 75, 50, EMPTY, ...]\<close>. When
  all ten entries are non-empty and none is smaller than the score, the state is
  unchanged.
\<close>

theorem insert_high_score_spec:
  "(length (s_high_scores s) = nat NUM_HIGH_SCORES \<longrightarrow>
      insert_high_score sc s =
        s\<lparr>s_high_scores :=
             take (nat NUM_HIGH_SCORES)
               (takeWhile (keeps_rank sc) (s_high_scores s) @
                sc # dropWhile (keeps_rank sc) (s_high_scores s))\<rparr>) \<and>
   (length (s_high_scores s) = nat NUM_HIGH_SCORES \<and> sorted_wrt (\<ge>) (s_high_scores s) \<and>
    HIGH_SCORE_EMPTY \<le> sc \<longrightarrow>
      sorted_wrt (\<ge>) (s_high_scores (insert_high_score sc s))) \<and>
   (s_high_scores s = replicate (nat NUM_HIGH_SCORES) HIGH_SCORE_EMPTY \<longrightarrow>
      s_high_scores (insert_high_score 75 (insert_high_score 200 (insert_high_score 50 s))) =
        [200, 75, 50, HIGH_SCORE_EMPTY, HIGH_SCORE_EMPTY, HIGH_SCORE_EMPTY, HIGH_SCORE_EMPTY,
         HIGH_SCORE_EMPTY, HIGH_SCORE_EMPTY, HIGH_SCORE_EMPTY]) \<and>
   (length (s_high_scores s) = nat NUM_HIGH_SCORES \<and>
    (\<forall>e \<in> set (s_high_scores s). e \<noteq> HIGH_SCORE_EMPTY \<and> sc \<le> e) \<longrightarrow>
      insert_high_score sc s = s)"
proof (intro conjI impI)
  assume "length (s_high_scores s) = nat NUM_HIGH_SCORES"
  then show "insert_high_score sc s =
        s\<lparr>s_high_scores :=
             take (nat NUM_HIGH_SCORES)
               (takeWhile (keeps_rank sc) (s_high_scores s) @
                sc # dropWhile (keeps_rank sc) (s_high_scores s))\<rparr>"
    by (rule insert_high_score_closed)
next
  assume "length (s_high_scores s) = nat NUM_HIGH_SCORES \<and> sorted_wrt (\<ge>) (s_high_scores s) \<and>
    HIGH_SCORE_EMPTY \<le> sc"
  then have len: "length (s_high_scores s) = nat NUM_HIGH_SCORES"
    and srt: "sorted_wrt (\<ge>) (s_high_scores s)" and sc: "HIGH_SCORE_EMPTY \<le> sc"
    by simp_all
  have "sorted_wrt (\<ge>) (take (nat NUM_HIGH_SCORES)
               (takeWhile (keeps_rank sc) (s_high_scores s) @
                sc # dropWhile (keeps_rank sc) (s_high_scores s)))"
    by (rule sorted_wrt_take) (rule sorted_insert_rank [OF srt sc])
  then show "sorted_wrt (\<ge>) (s_high_scores (insert_high_score sc s))"
    by (subst insert_high_score_closed [OF len]) (simp del: take_append)
next
  assume e: "s_high_scores s = replicate (nat NUM_HIGH_SCORES) HIGH_SCORE_EMPTY"
  have r: "replicate (nat NUM_HIGH_SCORES) HIGH_SCORE_EMPTY = [-1, -1, -1, -1, -1, -1, -1, -1, -1, -1]"
    by (simp add: NUM_HIGH_SCORES_def HIGH_SCORE_EMPTY_def numeral_eq_Suc)
  have n: "nat NUM_HIGH_SCORES = 10" by (simp add: NUM_HIGH_SCORES_def)
  have e': "s_high_scores s = [-1, -1, -1, -1, -1, -1, -1, -1, -1, -1]"
    using e r by simp
  have 1: "insert_high_score 50 s = s\<lparr>s_high_scores := [50, -1, -1, -1, -1, -1, -1, -1, -1, -1]\<rparr>"
    by (subst insert_high_score_closed) (simp_all add: e' n keeps_rank_def HIGH_SCORE_EMPTY_def)
  have 2: "insert_high_score 200 (insert_high_score 50 s) =
             s\<lparr>s_high_scores := [200, 50, -1, -1, -1, -1, -1, -1, -1, -1]\<rparr>"
    by (subst insert_high_score_closed) (simp_all add: 1 n keeps_rank_def HIGH_SCORE_EMPTY_def)
  have 3: "insert_high_score 75 (insert_high_score 200 (insert_high_score 50 s)) =
             s\<lparr>s_high_scores := [200, 75, 50, -1, -1, -1, -1, -1, -1, -1]\<rparr>"
    by (subst insert_high_score_closed) (simp_all add: 2 n keeps_rank_def HIGH_SCORE_EMPTY_def)
  show "s_high_scores (insert_high_score 75 (insert_high_score 200 (insert_high_score 50 s))) =
        [200, 75, 50, HIGH_SCORE_EMPTY, HIGH_SCORE_EMPTY, HIGH_SCORE_EMPTY, HIGH_SCORE_EMPTY,
         HIGH_SCORE_EMPTY, HIGH_SCORE_EMPTY, HIGH_SCORE_EMPTY]"
    by (simp add: 3 HIGH_SCORE_EMPTY_def)
next
  assume a: "length (s_high_scores s) = nat NUM_HIGH_SCORES \<and>
    (\<forall>e \<in> set (s_high_scores s). e \<noteq> HIGH_SCORE_EMPTY \<and> sc \<le> e)"
  then have tw: "takeWhile (keeps_rank sc) (s_high_scores s) = s_high_scores s"
    by (simp add: keeps_rank_def)
  from a have len: "length (s_high_scores s) = nat NUM_HIGH_SCORES" by simp
  show "insert_high_score sc s = s"
    by (subst insert_high_score_closed [OF len]) (simp only: tw, simp add: len)
qed

lemma table_states:
  "s_high_scores playing_state = replicate (nat NUM_HIGH_SCORES) HIGH_SCORE_EMPTY"
  "s_high_scores full_table_state = [1000, 900, 800, 700, 600, 500, 400, 300, 200, 100]"
  by (simp_all add: full_table_state_def start_defs)

theorem insert_high_score_spec_witness:
  "s_high_scores (insert_high_score 75 (insert_high_score 200 (insert_high_score 50 playing_state)))
     = [200, 75, 50, -1, -1, -1, -1, -1, -1, -1] \<and>
   insert_high_score 99 full_table_state = full_table_state \<and>
   s_high_scores (insert_high_score 900 full_table_state)
     = [1000, 900, 900, 800, 700, 600, 500, 400, 300, 200] \<and>
   sorted_wrt (\<ge>) (s_high_scores (insert_high_score 900 full_table_state))"
proof -
  have len: "length (s_high_scores full_table_state) = nat NUM_HIGH_SCORES"
    by (simp add: table_states NUM_HIGH_SCORES_def)
  have srt: "sorted_wrt (\<ge>) (s_high_scores full_table_state)"
    by (simp add: table_states)
  have low: "\<forall>e \<in> set (s_high_scores full_table_state). e \<noteq> HIGH_SCORE_EMPTY \<and> 99 \<le> e"
    by (simp add: table_states HIGH_SCORE_EMPTY_def)
  have "s_high_scores
          (insert_high_score 75 (insert_high_score 200 (insert_high_score 50 playing_state)))
        = [200, 75, 50, -1, -1, -1, -1, -1, -1, -1]"
    using insert_high_score_spec [of playing_state 0] table_states(1)
    by (simp add: HIGH_SCORE_EMPTY_def)
  moreover have "insert_high_score 99 full_table_state = full_table_state"
    using insert_high_score_spec [of full_table_state 99] len low by blast
  moreover have "insert_high_score 900 full_table_state =
      full_table_state\<lparr>s_high_scores :=
             take (nat NUM_HIGH_SCORES)
               (takeWhile (keeps_rank 900) (s_high_scores full_table_state) @
                900 # dropWhile (keeps_rank 900) (s_high_scores full_table_state))\<rparr>"
    using insert_high_score_spec [of full_table_state 900] len by blast
  then have "s_high_scores (insert_high_score 900 full_table_state)
     = [1000, 900, 900, 800, 700, 600, 500, 400, 300, 200]"
    by (simp add: table_states keeps_rank_def HIGH_SCORE_EMPTY_def NUM_HIGH_SCORES_def)
  moreover have "sorted_wrt (\<ge>) (s_high_scores (insert_high_score 900 full_table_state))"
  proof -
    have "HIGH_SCORE_EMPTY \<le> 900" by (simp add: HIGH_SCORE_EMPTY_def)
    with insert_high_score_spec [of full_table_state 900] len srt show ?thesis by blast
  qed
  ultimately show ?thesis by simp
qed

subsection \<open>What each part of a tick leaves unchanged\<close>

lemma spawn_angel_frame [simp]:
  "state (spawn_angel b s) = state s"
  "game_paused (spawn_angel b s) = game_paused s"
  "pyoro (spawn_angel b s) = pyoro s"
  "pyoro_x (pyoro (spawn_angel b s)) = pyoro_x (pyoro s)"
  "pyoro_y (pyoro (spawn_angel b s)) = pyoro_y (pyoro s)"
  "direction (pyoro (spawn_angel b s)) = direction (pyoro s)"
  "dead (pyoro (spawn_angel b s)) = dead (pyoro s)"
  "tongue (pyoro (spawn_angel b s)) = tongue (pyoro s)"
  "beans (spawn_angel b s) = beans s"
  "score (spawn_angel b s) = score s"
  "game_speed (spawn_angel b s) = game_speed s"
  "bean_spawn_timer (spawn_angel b s) = bean_spawn_timer s"
  "death_timer (spawn_angel b s) = death_timer s"
  "s_pending_step_count (spawn_angel b s) = s_pending_step_count s"
  "s_pending_step_dir (spawn_angel b s) = s_pending_step_dir s"
  "s_high_scores (spawn_angel b s) = s_high_scores s"
  "s_background_index (spawn_angel b s) = s_background_index s"
  "length (blocks (spawn_angel b s)) = length (blocks s)"
  by (simp_all add: spawn_angel_def)

lemma insert_high_score_frame [simp]:
  "state (insert_high_score sc s) = state s"
  "game_paused (insert_high_score sc s) = game_paused s"
  "pyoro (insert_high_score sc s) = pyoro s"
  "pyoro_x (pyoro (insert_high_score sc s)) = pyoro_x (pyoro s)"
  "pyoro_y (pyoro (insert_high_score sc s)) = pyoro_y (pyoro s)"
  "direction (pyoro (insert_high_score sc s)) = direction (pyoro s)"
  "dead (pyoro (insert_high_score sc s)) = dead (pyoro s)"
  "tongue (pyoro (insert_high_score sc s)) = tongue (pyoro s)"
  "beans (insert_high_score sc s) = beans s"
  "blocks (insert_high_score sc s) = blocks s"
  "angel (insert_high_score sc s) = angel s"
  "score (insert_high_score sc s) = score s"
  "game_speed (insert_high_score sc s) = game_speed s"
  "bean_spawn_timer (insert_high_score sc s) = bean_spawn_timer s"
  "death_timer (insert_high_score sc s) = death_timer s"
  "s_pending_step_count (insert_high_score sc s) = s_pending_step_count s"
  "s_pending_step_dir (insert_high_score sc s) = s_pending_step_dir s"
  "s_background_index (insert_high_score sc s) = s_background_index s"
  by (simp_all add: insert_high_score_def Let_def)

lemma apply_pyoro_step_frame [simp]:
  "state (snd (apply_pyoro_step d s)) = state s"
  "game_paused (snd (apply_pyoro_step d s)) = game_paused s"
  "pyoro_y (pyoro (snd (apply_pyoro_step d s))) = pyoro_y (pyoro s)"
  "direction (pyoro (snd (apply_pyoro_step d s))) = direction (pyoro s)"
  "dead (pyoro (snd (apply_pyoro_step d s))) = dead (pyoro s)"
  "tongue (pyoro (snd (apply_pyoro_step d s))) = tongue (pyoro s)"
  "beans (snd (apply_pyoro_step d s)) = beans s"
  "blocks (snd (apply_pyoro_step d s)) = blocks s"
  "angel (snd (apply_pyoro_step d s)) = angel s"
  "score (snd (apply_pyoro_step d s)) = score s"
  "game_speed (snd (apply_pyoro_step d s)) = game_speed s"
  "bean_spawn_timer (snd (apply_pyoro_step d s)) = bean_spawn_timer s"
  "death_timer (snd (apply_pyoro_step d s)) = death_timer s"
  "s_pending_step_count (snd (apply_pyoro_step d s)) = s_pending_step_count s"
  "s_pending_step_dir (snd (apply_pyoro_step d s)) = s_pending_step_dir s"
  "s_high_scores (snd (apply_pyoro_step d s)) = s_high_scores s"
  "s_background_index (snd (apply_pyoro_step d s)) = s_background_index s"
  by (simp_all add: apply_pyoro_step_def Let_def)

lemma update_step_queue_frame [simp]:
  "state (update_step_queue s) = state s"
  "game_paused (update_step_queue s) = game_paused s"
  "pyoro_y (pyoro (update_step_queue s)) = pyoro_y (pyoro s)"
  "direction (pyoro (update_step_queue s)) = direction (pyoro s)"
  "dead (pyoro (update_step_queue s)) = dead (pyoro s)"
  "tongue (pyoro (update_step_queue s)) = tongue (pyoro s)"
  "beans (update_step_queue s) = beans s"
  "blocks (update_step_queue s) = blocks s"
  "angel (update_step_queue s) = angel s"
  "score (update_step_queue s) = score s"
  "game_speed (update_step_queue s) = game_speed s"
  "bean_spawn_timer (update_step_queue s) = bean_spawn_timer s"
  "death_timer (update_step_queue s) = death_timer s"
  "s_high_scores (update_step_queue s) = s_high_scores s"
  "s_background_index (update_step_queue s) = s_background_index s"
  by (simp_all add: update_step_queue_def Let_def)

lemma move_caught_loop_frame [simp]:
  "state (move_caught_loop i s) = state s"
  "game_paused (move_caught_loop i s) = game_paused s"
  "pyoro (move_caught_loop i s) = pyoro s"
  "pyoro_x (pyoro (move_caught_loop i s)) = pyoro_x (pyoro s)"
  "pyoro_y (pyoro (move_caught_loop i s)) = pyoro_y (pyoro s)"
  "direction (pyoro (move_caught_loop i s)) = direction (pyoro s)"
  "dead (pyoro (move_caught_loop i s)) = dead (pyoro s)"
  "tongue (pyoro (move_caught_loop i s)) = tongue (pyoro s)"
  "blocks (move_caught_loop i s) = blocks s"
  "angel (move_caught_loop i s) = angel s"
  "score (move_caught_loop i s) = score s"
  "game_speed (move_caught_loop i s) = game_speed s"
  "bean_spawn_timer (move_caught_loop i s) = bean_spawn_timer s"
  "death_timer (move_caught_loop i s) = death_timer s"
  "s_pending_step_count (move_caught_loop i s) = s_pending_step_count s"
  "s_pending_step_dir (move_caught_loop i s) = s_pending_step_dir s"
  "s_high_scores (move_caught_loop i s) = s_high_scores s"
  "s_background_index (move_caught_loop i s) = s_background_index s"
  "length (beans (move_caught_loop i s)) = length (beans s)"
  by (induction i s rule: move_caught_loop.induct; subst move_caught_loop.simps; simp add: Let_def)+

lemma remove_caught_loop_frame [simp]:
  "state (remove_caught_loop i s) = state s"
  "game_paused (remove_caught_loop i s) = game_paused s"
  "pyoro (remove_caught_loop i s) = pyoro s"
  "pyoro_x (pyoro (remove_caught_loop i s)) = pyoro_x (pyoro s)"
  "pyoro_y (pyoro (remove_caught_loop i s)) = pyoro_y (pyoro s)"
  "direction (pyoro (remove_caught_loop i s)) = direction (pyoro s)"
  "dead (pyoro (remove_caught_loop i s)) = dead (pyoro s)"
  "tongue (pyoro (remove_caught_loop i s)) = tongue (pyoro s)"
  "game_speed (remove_caught_loop i s) = game_speed s"
  "bean_spawn_timer (remove_caught_loop i s) = bean_spawn_timer s"
  "death_timer (remove_caught_loop i s) = death_timer s"
  "s_pending_step_count (remove_caught_loop i s) = s_pending_step_count s"
  "s_pending_step_dir (remove_caught_loop i s) = s_pending_step_dir s"
  "s_high_scores (remove_caught_loop i s) = s_high_scores s"
  "s_background_index (remove_caught_loop i s) = s_background_index s"
  "length (beans (remove_caught_loop i s)) = length (beans s)"
  "length (blocks (remove_caught_loop i s)) = length (blocks s)"
  by (induction i s rule: remove_caught_loop.induct; subst remove_caught_loop.simps; simp add: Let_def)+

lemma catch_loop_frame [simp]:
  "state (catch_loop i s) = state s"
  "game_paused (catch_loop i s) = game_paused s"
  "pyoro_x (pyoro (catch_loop i s)) = pyoro_x (pyoro s)"
  "pyoro_y (pyoro (catch_loop i s)) = pyoro_y (pyoro s)"
  "direction (pyoro (catch_loop i s)) = direction (pyoro s)"
  "dead (pyoro (catch_loop i s)) = dead (pyoro s)"
  "blocks (catch_loop i s) = blocks s"
  "angel (catch_loop i s) = angel s"
  "score (catch_loop i s) = score s"
  "game_speed (catch_loop i s) = game_speed s"
  "bean_spawn_timer (catch_loop i s) = bean_spawn_timer s"
  "death_timer (catch_loop i s) = death_timer s"
  "s_pending_step_count (catch_loop i s) = s_pending_step_count s"
  "s_pending_step_dir (catch_loop i s) = s_pending_step_dir s"
  "s_high_scores (catch_loop i s) = s_high_scores s"
  "s_background_index (catch_loop i s) = s_background_index s"
  "length (beans (catch_loop i s)) = length (beans s)"
  by (induction i s rule: catch_loop.induct; subst catch_loop.simps; simp add: Let_def)+

lemma tongue_retract_frame [simp]:
  "state (tongue_retract dt s) = state s"
  "game_paused (tongue_retract dt s) = game_paused s"
  "pyoro_x (pyoro (tongue_retract dt s)) = pyoro_x (pyoro s)"
  "pyoro_y (pyoro (tongue_retract dt s)) = pyoro_y (pyoro s)"
  "direction (pyoro (tongue_retract dt s)) = direction (pyoro s)"
  "dead (pyoro (tongue_retract dt s)) = dead (pyoro s)"
  "game_speed (tongue_retract dt s) = game_speed s"
  "bean_spawn_timer (tongue_retract dt s) = bean_spawn_timer s"
  "death_timer (tongue_retract dt s) = death_timer s"
  "s_pending_step_count (tongue_retract dt s) = s_pending_step_count s"
  "s_pending_step_dir (tongue_retract dt s) = s_pending_step_dir s"
  "s_high_scores (tongue_retract dt s) = s_high_scores s"
  "s_background_index (tongue_retract dt s) = s_background_index s"
  "length (beans (tongue_retract dt s)) = length (beans s)"
  "length (blocks (tongue_retract dt s)) = length (blocks s)"
  by (simp_all add: tongue_retract_def Let_def)

lemma tongue_extend_frame [simp]:
  "state (tongue_extend dt s) = state s"
  "game_paused (tongue_extend dt s) = game_paused s"
  "pyoro_x (pyoro (tongue_extend dt s)) = pyoro_x (pyoro s)"
  "pyoro_y (pyoro (tongue_extend dt s)) = pyoro_y (pyoro s)"
  "direction (pyoro (tongue_extend dt s)) = direction (pyoro s)"
  "dead (pyoro (tongue_extend dt s)) = dead (pyoro s)"
  "blocks (tongue_extend dt s) = blocks s"
  "angel (tongue_extend dt s) = angel s"
  "score (tongue_extend dt s) = score s"
  "game_speed (tongue_extend dt s) = game_speed s"
  "bean_spawn_timer (tongue_extend dt s) = bean_spawn_timer s"
  "death_timer (tongue_extend dt s) = death_timer s"
  "s_pending_step_count (tongue_extend dt s) = s_pending_step_count s"
  "s_pending_step_dir (tongue_extend dt s) = s_pending_step_dir s"
  "s_high_scores (tongue_extend dt s) = s_high_scores s"
  "s_background_index (tongue_extend dt s) = s_background_index s"
  "length (beans (tongue_extend dt s)) = length (beans s)"
  by (simp_all add: tongue_extend_def Let_def)

lemma update_tongue_frame [simp]:
  "state (update_tongue dt s) = state s"
  "game_paused (update_tongue dt s) = game_paused s"
  "pyoro_x (pyoro (update_tongue dt s)) = pyoro_x (pyoro s)"
  "pyoro_y (pyoro (update_tongue dt s)) = pyoro_y (pyoro s)"
  "direction (pyoro (update_tongue dt s)) = direction (pyoro s)"
  "dead (pyoro (update_tongue dt s)) = dead (pyoro s)"
  "game_speed (update_tongue dt s) = game_speed s"
  "bean_spawn_timer (update_tongue dt s) = bean_spawn_timer s"
  "death_timer (update_tongue dt s) = death_timer s"
  "s_pending_step_count (update_tongue dt s) = s_pending_step_count s"
  "s_pending_step_dir (update_tongue dt s) = s_pending_step_dir s"
  "s_high_scores (update_tongue dt s) = s_high_scores s"
  "s_background_index (update_tongue dt s) = s_background_index s"
  "length (beans (update_tongue dt s)) = length (beans s)"
  "length (blocks (update_tongue dt s)) = length (blocks s)"
  by (simp_all add: update_tongue_def)

lemma bean_fall_frame [simp]:
  "state (bean_fall dt i s) = state s"
  "game_paused (bean_fall dt i s) = game_paused s"
  "pyoro (bean_fall dt i s) = pyoro s"
  "pyoro_x (pyoro (bean_fall dt i s)) = pyoro_x (pyoro s)"
  "pyoro_y (pyoro (bean_fall dt i s)) = pyoro_y (pyoro s)"
  "direction (pyoro (bean_fall dt i s)) = direction (pyoro s)"
  "dead (pyoro (bean_fall dt i s)) = dead (pyoro s)"
  "tongue (pyoro (bean_fall dt i s)) = tongue (pyoro s)"
  "blocks (bean_fall dt i s) = blocks s"
  "angel (bean_fall dt i s) = angel s"
  "score (bean_fall dt i s) = score s"
  "game_speed (bean_fall dt i s) = game_speed s"
  "bean_spawn_timer (bean_fall dt i s) = bean_spawn_timer s"
  "death_timer (bean_fall dt i s) = death_timer s"
  "s_pending_step_count (bean_fall dt i s) = s_pending_step_count s"
  "s_pending_step_dir (bean_fall dt i s) = s_pending_step_dir s"
  "s_high_scores (bean_fall dt i s) = s_high_scores s"
  "s_background_index (bean_fall dt i s) = s_background_index s"
  "length (beans (bean_fall dt i s)) = length (beans s)"
  by (simp_all add: bean_fall_def)

lemma pyoro_dies_frame [simp]:
  "state (pyoro_dies s) = state s"
  "game_paused (pyoro_dies s) = game_paused s"
  "pyoro_x (pyoro (pyoro_dies s)) = pyoro_x (pyoro s)"
  "pyoro_y (pyoro (pyoro_dies s)) = pyoro_y (pyoro s)"
  "direction (pyoro (pyoro_dies s)) = direction (pyoro s)"
  "tongue (pyoro (pyoro_dies s)) = tongue (pyoro s)"
  "beans (pyoro_dies s) = beans s"
  "blocks (pyoro_dies s) = blocks s"
  "angel (pyoro_dies s) = angel s"
  "score (pyoro_dies s) = score s"
  "game_speed (pyoro_dies s) = game_speed s"
  "bean_spawn_timer (pyoro_dies s) = bean_spawn_timer s"
  "s_pending_step_count (pyoro_dies s) = s_pending_step_count s"
  "s_pending_step_dir (pyoro_dies s) = s_pending_step_dir s"
  "s_high_scores (pyoro_dies s) = s_high_scores s"
  "s_background_index (pyoro_dies s) = s_background_index s"
  by (simp_all add: pyoro_dies_def)

lemma bean_ground_frame [simp]:
  "state (bean_ground i s) = state s"
  "game_paused (bean_ground i s) = game_paused s"
  "pyoro (bean_ground i s) = pyoro s"
  "pyoro_x (pyoro (bean_ground i s)) = pyoro_x (pyoro s)"
  "pyoro_y (pyoro (bean_ground i s)) = pyoro_y (pyoro s)"
  "direction (pyoro (bean_ground i s)) = direction (pyoro s)"
  "dead (pyoro (bean_ground i s)) = dead (pyoro s)"
  "tongue (pyoro (bean_ground i s)) = tongue (pyoro s)"
  "angel (bean_ground i s) = angel s"
  "score (bean_ground i s) = score s"
  "game_speed (bean_ground i s) = game_speed s"
  "bean_spawn_timer (bean_ground i s) = bean_spawn_timer s"
  "death_timer (bean_ground i s) = death_timer s"
  "s_pending_step_count (bean_ground i s) = s_pending_step_count s"
  "s_pending_step_dir (bean_ground i s) = s_pending_step_dir s"
  "s_high_scores (bean_ground i s) = s_high_scores s"
  "s_background_index (bean_ground i s) = s_background_index s"
  "length (beans (bean_ground i s)) = length (beans s)"
  "length (blocks (bean_ground i s)) = length (blocks s)"
  by (simp_all add: bean_ground_def Let_def)

lemma update_beans_loop_frame [simp]:
  "state (update_beans_loop dt i s) = state s"
  "game_paused (update_beans_loop dt i s) = game_paused s"
  "pyoro_x (pyoro (update_beans_loop dt i s)) = pyoro_x (pyoro s)"
  "pyoro_y (pyoro (update_beans_loop dt i s)) = pyoro_y (pyoro s)"
  "direction (pyoro (update_beans_loop dt i s)) = direction (pyoro s)"
  "tongue (pyoro (update_beans_loop dt i s)) = tongue (pyoro s)"
  "angel (update_beans_loop dt i s) = angel s"
  "score (update_beans_loop dt i s) = score s"
  "game_speed (update_beans_loop dt i s) = game_speed s"
  "bean_spawn_timer (update_beans_loop dt i s) = bean_spawn_timer s"
  "s_pending_step_count (update_beans_loop dt i s) = s_pending_step_count s"
  "s_pending_step_dir (update_beans_loop dt i s) = s_pending_step_dir s"
  "s_high_scores (update_beans_loop dt i s) = s_high_scores s"
  "s_background_index (update_beans_loop dt i s) = s_background_index s"
  "length (beans (update_beans_loop dt i s)) = length (beans s)"
  "length (blocks (update_beans_loop dt i s)) = length (blocks s)"
  by (induction dt i s rule: update_beans_loop.induct; subst update_beans_loop.simps; simp add: Let_def)+

lemma update_beans_frame [simp]:
  "state (update_beans dt s) = state s"
  "game_paused (update_beans dt s) = game_paused s"
  "pyoro_x (pyoro (update_beans dt s)) = pyoro_x (pyoro s)"
  "pyoro_y (pyoro (update_beans dt s)) = pyoro_y (pyoro s)"
  "direction (pyoro (update_beans dt s)) = direction (pyoro s)"
  "tongue (pyoro (update_beans dt s)) = tongue (pyoro s)"
  "angel (update_beans dt s) = angel s"
  "score (update_beans dt s) = score s"
  "game_speed (update_beans dt s) = game_speed s"
  "bean_spawn_timer (update_beans dt s) = bean_spawn_timer s"
  "s_pending_step_count (update_beans dt s) = s_pending_step_count s"
  "s_pending_step_dir (update_beans dt s) = s_pending_step_dir s"
  "s_high_scores (update_beans dt s) = s_high_scores s"
  "s_background_index (update_beans dt s) = s_background_index s"
  "length (beans (update_beans dt s)) = length (beans s)"
  "length (blocks (update_beans dt s)) = length (blocks s)"
  by (simp_all add: update_beans_def)

lemma update_angel_frame [simp]:
  "state (update_angel dt s) = state s"
  "game_paused (update_angel dt s) = game_paused s"
  "pyoro (update_angel dt s) = pyoro s"
  "pyoro_x (pyoro (update_angel dt s)) = pyoro_x (pyoro s)"
  "pyoro_y (pyoro (update_angel dt s)) = pyoro_y (pyoro s)"
  "direction (pyoro (update_angel dt s)) = direction (pyoro s)"
  "dead (pyoro (update_angel dt s)) = dead (pyoro s)"
  "tongue (pyoro (update_angel dt s)) = tongue (pyoro s)"
  "beans (update_angel dt s) = beans s"
  "score (update_angel dt s) = score s"
  "game_speed (update_angel dt s) = game_speed s"
  "bean_spawn_timer (update_angel dt s) = bean_spawn_timer s"
  "death_timer (update_angel dt s) = death_timer s"
  "s_pending_step_count (update_angel dt s) = s_pending_step_count s"
  "s_pending_step_dir (update_angel dt s) = s_pending_step_dir s"
  "s_high_scores (update_angel dt s) = s_high_scores s"
  "s_background_index (update_angel dt s) = s_background_index s"
  "length (blocks (update_angel dt s)) = length (blocks s)"
  by (simp_all add: update_angel_def Let_def)

lemma spawn_bean_loop_frame [simp]:
  "state (spawn_bean_loop r1 r2 r3 i s) = state s"
  "game_paused (spawn_bean_loop r1 r2 r3 i s) = game_paused s"
  "pyoro (spawn_bean_loop r1 r2 r3 i s) = pyoro s"
  "pyoro_x (pyoro (spawn_bean_loop r1 r2 r3 i s)) = pyoro_x (pyoro s)"
  "pyoro_y (pyoro (spawn_bean_loop r1 r2 r3 i s)) = pyoro_y (pyoro s)"
  "direction (pyoro (spawn_bean_loop r1 r2 r3 i s)) = direction (pyoro s)"
  "dead (pyoro (spawn_bean_loop r1 r2 r3 i s)) = dead (pyoro s)"
  "tongue (pyoro (spawn_bean_loop r1 r2 r3 i s)) = tongue (pyoro s)"
  "blocks (spawn_bean_loop r1 r2 r3 i s) = blocks s"
  "angel (spawn_bean_loop r1 r2 r3 i s) = angel s"
  "score (spawn_bean_loop r1 r2 r3 i s) = score s"
  "game_speed (spawn_bean_loop r1 r2 r3 i s) = game_speed s"
  "bean_spawn_timer (spawn_bean_loop r1 r2 r3 i s) = bean_spawn_timer s"
  "death_timer (spawn_bean_loop r1 r2 r3 i s) = death_timer s"
  "s_pending_step_count (spawn_bean_loop r1 r2 r3 i s) = s_pending_step_count s"
  "s_pending_step_dir (spawn_bean_loop r1 r2 r3 i s) = s_pending_step_dir s"
  "s_high_scores (spawn_bean_loop r1 r2 r3 i s) = s_high_scores s"
  "s_background_index (spawn_bean_loop r1 r2 r3 i s) = s_background_index s"
  "length (beans (spawn_bean_loop r1 r2 r3 i s)) = length (beans s)"
  by (induction r1 r2 r3 i s rule: spawn_bean_loop.induct; subst spawn_bean_loop.simps; simp add: Let_def)+

lemma spawn_bean_frame [simp]:
  "state (spawn_bean r1 r2 r3 s) = state s"
  "game_paused (spawn_bean r1 r2 r3 s) = game_paused s"
  "pyoro (spawn_bean r1 r2 r3 s) = pyoro s"
  "pyoro_x (pyoro (spawn_bean r1 r2 r3 s)) = pyoro_x (pyoro s)"
  "pyoro_y (pyoro (spawn_bean r1 r2 r3 s)) = pyoro_y (pyoro s)"
  "direction (pyoro (spawn_bean r1 r2 r3 s)) = direction (pyoro s)"
  "dead (pyoro (spawn_bean r1 r2 r3 s)) = dead (pyoro s)"
  "tongue (pyoro (spawn_bean r1 r2 r3 s)) = tongue (pyoro s)"
  "blocks (spawn_bean r1 r2 r3 s) = blocks s"
  "angel (spawn_bean r1 r2 r3 s) = angel s"
  "score (spawn_bean r1 r2 r3 s) = score s"
  "game_speed (spawn_bean r1 r2 r3 s) = game_speed s"
  "bean_spawn_timer (spawn_bean r1 r2 r3 s) = bean_spawn_timer s"
  "death_timer (spawn_bean r1 r2 r3 s) = death_timer s"
  "s_pending_step_count (spawn_bean r1 r2 r3 s) = s_pending_step_count s"
  "s_pending_step_dir (spawn_bean r1 r2 r3 s) = s_pending_step_dir s"
  "s_high_scores (spawn_bean r1 r2 r3 s) = s_high_scores s"
  "s_background_index (spawn_bean r1 r2 r3 s) = s_background_index s"
  "length (beans (spawn_bean r1 r2 r3 s)) = length (beans s)"
  by (simp_all add: spawn_bean_def)

lemma update_spawn_frame [simp]:
  "state (update_spawn dt r1 r2 r3 s) = state s"
  "game_paused (update_spawn dt r1 r2 r3 s) = game_paused s"
  "pyoro (update_spawn dt r1 r2 r3 s) = pyoro s"
  "pyoro_x (pyoro (update_spawn dt r1 r2 r3 s)) = pyoro_x (pyoro s)"
  "pyoro_y (pyoro (update_spawn dt r1 r2 r3 s)) = pyoro_y (pyoro s)"
  "direction (pyoro (update_spawn dt r1 r2 r3 s)) = direction (pyoro s)"
  "dead (pyoro (update_spawn dt r1 r2 r3 s)) = dead (pyoro s)"
  "tongue (pyoro (update_spawn dt r1 r2 r3 s)) = tongue (pyoro s)"
  "blocks (update_spawn dt r1 r2 r3 s) = blocks s"
  "angel (update_spawn dt r1 r2 r3 s) = angel s"
  "score (update_spawn dt r1 r2 r3 s) = score s"
  "game_speed (update_spawn dt r1 r2 r3 s) = game_speed s"
  "death_timer (update_spawn dt r1 r2 r3 s) = death_timer s"
  "s_pending_step_count (update_spawn dt r1 r2 r3 s) = s_pending_step_count s"
  "s_pending_step_dir (update_spawn dt r1 r2 r3 s) = s_pending_step_dir s"
  "s_high_scores (update_spawn dt r1 r2 r3 s) = s_high_scores s"
  "s_background_index (update_spawn dt r1 r2 r3 s) = s_background_index s"
  "length (beans (update_spawn dt r1 r2 r3 s)) = length (beans s)"
  by (simp_all add: update_spawn_def spawn_bean_def Let_def)

lemma update_background_frame [simp]:
  "state (update_background s) = state s"
  "game_paused (update_background s) = game_paused s"
  "pyoro (update_background s) = pyoro s"
  "pyoro_x (pyoro (update_background s)) = pyoro_x (pyoro s)"
  "pyoro_y (pyoro (update_background s)) = pyoro_y (pyoro s)"
  "direction (pyoro (update_background s)) = direction (pyoro s)"
  "dead (pyoro (update_background s)) = dead (pyoro s)"
  "tongue (pyoro (update_background s)) = tongue (pyoro s)"
  "beans (update_background s) = beans s"
  "blocks (update_background s) = blocks s"
  "angel (update_background s) = angel s"
  "score (update_background s) = score s"
  "game_speed (update_background s) = game_speed s"
  "bean_spawn_timer (update_background s) = bean_spawn_timer s"
  "death_timer (update_background s) = death_timer s"
  "s_pending_step_count (update_background s) = s_pending_step_count s"
  "s_pending_step_dir (update_background s) = s_pending_step_dir s"
  "s_high_scores (update_background s) = s_high_scores s"
  by (simp_all add: update_background_def Let_def)

lemma update_before_beans_frame [simp]:
  "state (update_before_beans delta_time s) = state s"
  "game_paused (update_before_beans delta_time s) = game_paused s"
  "pyoro_y (pyoro (update_before_beans delta_time s)) = pyoro_y (pyoro s)"
  "direction (pyoro (update_before_beans delta_time s)) = direction (pyoro s)"
  "dead (pyoro (update_before_beans delta_time s)) = dead (pyoro s)"
  "bean_spawn_timer (update_before_beans delta_time s) = bean_spawn_timer s"
  "death_timer (update_before_beans delta_time s) = death_timer s"
  "s_high_scores (update_before_beans delta_time s) = s_high_scores s"
  "s_background_index (update_before_beans delta_time s) = s_background_index s"
  "length (beans (update_before_beans delta_time s)) = length (beans s)"
  "length (blocks (update_before_beans delta_time s)) = length (blocks s)"
  by (simp_all add: update_before_beans_def Let_def)

lemma update_after_beans_frame [simp]:
  "state (update_after_beans dt r1 r2 r3 s) = state s"
  "game_paused (update_after_beans dt r1 r2 r3 s) = game_paused s"
  "pyoro (update_after_beans dt r1 r2 r3 s) = pyoro s"
  "pyoro_x (pyoro (update_after_beans dt r1 r2 r3 s)) = pyoro_x (pyoro s)"
  "pyoro_y (pyoro (update_after_beans dt r1 r2 r3 s)) = pyoro_y (pyoro s)"
  "direction (pyoro (update_after_beans dt r1 r2 r3 s)) = direction (pyoro s)"
  "dead (pyoro (update_after_beans dt r1 r2 r3 s)) = dead (pyoro s)"
  "tongue (pyoro (update_after_beans dt r1 r2 r3 s)) = tongue (pyoro s)"
  "score (update_after_beans dt r1 r2 r3 s) = score s"
  "game_speed (update_after_beans dt r1 r2 r3 s) = game_speed s"
  "death_timer (update_after_beans dt r1 r2 r3 s) = death_timer s"
  "s_pending_step_count (update_after_beans dt r1 r2 r3 s) = s_pending_step_count s"
  "s_pending_step_dir (update_after_beans dt r1 r2 r3 s) = s_pending_step_dir s"
  "s_high_scores (update_after_beans dt r1 r2 r3 s) = s_high_scores s"
  "length (beans (update_after_beans dt r1 r2 r3 s)) = length (beans s)"
  "length (blocks (update_after_beans dt r1 r2 r3 s)) = length (blocks s)"
  by (simp_all add: update_after_beans_def)

subsection \<open>The loops that stop at the first matching bean\<close>

lemma first_index:
  assumes "k \<le> (i::nat)" and "i < n" and "P i"
  obtains m where "k \<le> m" and "m < n" and "P m" and "\<forall>j. k \<le> j \<and> j < m \<longrightarrow> \<not> P j"
proof -
  define m where "m = (LEAST m. k \<le> m \<and> P m)"
  have ex: "k \<le> i \<and> P i" using assms by simp
  have 1: "k \<le> m \<and> P m" unfolding m_def by (rule LeastI [of _ i]) (rule ex)
  have 2: "m \<le> i" unfolding m_def by (rule Least_le) (rule ex)
  have 3: "\<forall>j. k \<le> j \<and> j < m \<longrightarrow> \<not> P j"
    unfolding m_def using not_less_Least by blast
  from 1 2 3 assms(2) that show thesis by auto
qed


lemma move_caught_loop_first:
  "k \<le> i \<Longrightarrow> i < 5 \<Longrightarrow> held (beans s ! i) \<Longrightarrow>
   \<forall>j. k \<le> j \<and> j < i \<longrightarrow> \<not> held (beans s ! j) \<Longrightarrow>
   move_caught_loop k s =
     s\<lparr>beans := (beans s)[i := (beans s ! i)\<lparr>bean_x := tongue_x (tongue (pyoro s)),
                                               bean_y := tongue_y (tongue (pyoro s))\<rparr>]\<rparr>"
proof (induction k s rule: move_caught_loop.induct)
  case (1 k s)
  show ?case
  proof (cases "k = i")
    case True
    with 1(2-) show ?thesis by (simp add: move_caught_loop.simps [of i s] held_def)
  next
    case False
    with 1(2-) have "k < i" "\<not> held (beans s ! k)" by auto
    with 1 show ?thesis by (auto simp: move_caught_loop.simps [of k s] held_def)
  qed
qed


lemma remove_caught_loop_first:
  "k \<le> i \<Longrightarrow> i < 5 \<Longrightarrow> held (beans s ! i) \<Longrightarrow>
   \<forall>j. k \<le> j \<and> j < i \<longrightarrow> \<not> held (beans s ! j) \<Longrightarrow>
   remove_caught_loop k s =
     (let s1 = (if bean_type (beans s ! i) = BEAN_TYPE_PINK \<and> find_destroyed_block s \<ge> 0
                then spawn_angel (find_destroyed_block s) s else s)
      in s1\<lparr>score := score s + score_add (tongue_y (tongue (pyoro s))),
             beans := (beans s)[i := (beans s ! i)\<lparr>active := False\<rparr>]\<rparr>)"
proof (induction k s rule: remove_caught_loop.induct)
  case (1 k s)
  show ?case
  proof (cases "k = i")
    case True
    with 1(2-) show ?thesis
      by (simp add: remove_caught_loop.simps [of i s] held_def Let_def)
  next
    case False
    with 1(2-) have "k < i" "\<not> held (beans s ! k)" by auto
    with 1 show ?thesis by (auto simp: remove_caught_loop.simps [of k s] held_def)
  qed
qed

lemma catch_loop_none:
  "\<forall>j. k \<le> j \<and> j < 5 \<longrightarrow> \<not> catchable s (beans s ! j) \<Longrightarrow> catch_loop k s = s"
proof (induction k s rule: catch_loop.induct)
  case (1 i s)
  then show ?case
    by (auto simp: catch_loop.simps [of i s] catchable_def)
qed

lemma catch_loop_first:
  "k \<le> i \<Longrightarrow> i < 5 \<Longrightarrow> catchable s (beans s ! i) \<Longrightarrow>
   \<forall>j. k \<le> j \<and> j < i \<longrightarrow> \<not> catchable s (beans s ! j) \<Longrightarrow>
   catch_loop k s =
     s\<lparr>beans := (beans s)[i := (beans s ! i)\<lparr>caught := True\<rparr>],
       pyoro := (pyoro s)\<lparr>tongue := (tongue (pyoro s))\<lparr>caught_bean := True,
                                                       going_back := True\<rparr>\<rparr>\<rparr>"
proof (induction k s rule: catch_loop.induct)
  case (1 k s)
  show ?case
  proof (cases "k = i")
    case True
    with 1(2-) show ?thesis by (simp add: catch_loop.simps [of i s] catchable_def)
  next
    case False
    with 1(2-) have "k < i" "\<not> catchable s (beans s ! k)" by auto
    with 1 show ?thesis by (auto simp: catch_loop.simps [of k s] catchable_def)
  qed
qed

lemma spawn_bean_loop_none:
  "\<forall>j. k \<le> j \<and> j < 5 \<longrightarrow> active (beans s ! j) \<Longrightarrow> spawn_bean_loop r1 r2 r3 k s = s"
proof (induction r1 r2 r3 k s rule: spawn_bean_loop.induct)
  case (1 r1 r2 r3 i s)
  then show ?case
    by (auto simp: spawn_bean_loop.simps [of r1 r2 r3 i s])
qed

lemma spawn_bean_loop_first:
  "k \<le> i \<Longrightarrow> i < 5 \<Longrightarrow> \<not> active (beans s ! i) \<Longrightarrow>
   \<forall>j. k \<le> j \<and> j < i \<longrightarrow> active (beans s ! j) \<Longrightarrow>
   spawn_bean_loop r1 r2 r3 k s =
     s\<lparr>beans := (beans s)[i := (beans s ! i)\<lparr>
          bean_x := real (r1 mod nat GAME_WIDTH) + 0.5,
          bean_y := 0,
          speed := real (r2 mod 100) / 100 * 1 + 0.5,
          active := True,
          caught := False,
          bean_type := (if find_destroyed_block s \<ge> 0 \<and> r3 mod 5 < 2
                        then BEAN_TYPE_PINK else BEAN_TYPE_GREEN)\<rparr>]\<rparr>"
proof (induction r1 r2 r3 k s rule: spawn_bean_loop.induct)
  case (1 r1 r2 r3 k s)
  show ?case
  proof (cases "k = i")
    case True
    with 1(2-) show ?thesis by (simp add: spawn_bean_loop.simps [of r1 r2 r3 i s] Let_def)
  next
    case False
    with 1(2-) have "k < i" "active (beans s ! k)" by auto
    with 1 show ?thesis by (auto simp: spawn_bean_loop.simps [of r1 r2 r3 k s])
  qed
qed

subsection \<open>The step queue\<close>

lemma step_blocks_loop_iff:
  "step_blocks_loop bl i r =
     (\<forall>c. i \<le> c \<and> c \<le> r \<and> 0 \<le> c \<and> c < GAME_WIDTH \<longrightarrow> exists (bl ! nat c))"
proof (induction bl i r rule: step_blocks_loop.induct)
  case (1 bl i r)
  show ?case
  proof (cases "i \<le> r \<and> i < GAME_WIDTH")
    case False
    then show ?thesis by (auto simp: step_blocks_loop.simps [of bl i r])
  next
    case True
    show ?thesis
    proof (cases "0 \<le> i \<and> \<not> exists (bl ! nat i)")
      case True
      with \<open>i \<le> r \<and> i < GAME_WIDTH\<close> show ?thesis
        by (auto simp: step_blocks_loop.simps [of bl i r])
    next
      case False
      with \<open>i \<le> r \<and> i < GAME_WIDTH\<close> 1
      have "step_blocks_loop bl i r =
              (\<forall>c. i + 1 \<le> c \<and> c \<le> r \<and> 0 \<le> c \<and> c < GAME_WIDTH \<longrightarrow> exists (bl ! nat c))"
        by (auto simp: step_blocks_loop.simps [of bl i r])
      also have "\<dots> = (\<forall>c. i \<le> c \<and> c \<le> r \<and> 0 \<le> c \<and> c < GAME_WIDTH \<longrightarrow> exists (bl ! nat c))"
      proof -
        have up: "\<And>c. i \<le> c \<Longrightarrow> c \<noteq> i \<Longrightarrow> i + 1 \<le> c"
          and down: "\<And>c. i + 1 \<le> c \<Longrightarrow> i \<le> c"
          by simp_all
        from False up down show ?thesis by blast
      qed
      finally show ?thesis .
    qed
  qed
qed

lemma apply_pyoro_step_eq:
  "apply_pyoro_step d s =
     (if step_rejected d s then (False, s)
      else (True, s\<lparr>pyoro := (pyoro s)\<lparr>pyoro_x := candidate_x d s\<rparr>\<rparr>))"
proof -
  have cand: "(let new_x0 = pyoro_x (pyoro s) + real_of_int d * PYORO_SINGLE_STEP
               in if new_x0 < real_of_int PYORO_SIZE / 2 then real_of_int PYORO_SIZE / 2
                  else if new_x0 > real_of_int GAME_WIDTH - real_of_int PYORO_SIZE / 2
                  then real_of_int GAME_WIDTH - real_of_int PYORO_SIZE / 2
                  else new_x0) = candidate_x d s"
    by (simp add: candidate_x_def Let_def GAME_WIDTH_def PYORO_SIZE_def max_def min_def)
  have rej: "step_rejected d s =
          (\<not> step_blocks_loop (blocks s)
                (int_of_float (candidate_x d s - real_of_int PYORO_SIZE / 2))
                (int_of_float (candidate_x d s + real_of_int PYORO_SIZE / 2)))"
    by (auto simp: step_rejected_def footprint_columns_def step_blocks_loop_iff)
  show ?thesis
    unfolding apply_pyoro_step_def using cand by (simp add: Let_def rej)
qed

lemma candidate_x_on_stage:
  "real_of_int PYORO_SIZE / 2 \<le> candidate_x d s"
  "candidate_x d s \<le> real_of_int GAME_WIDTH - real_of_int PYORO_SIZE / 2"
  by (simp_all add: candidate_x_def GAME_WIDTH_def PYORO_SIZE_def)

lemma update_before_beans_step:
  "pyoro_x (pyoro (update_before_beans delta_time s)) = pyoro_x (pyoro (update_step_queue s))"
  "s_pending_step_count (update_before_beans delta_time s) =
     s_pending_step_count (update_step_queue s)"
  "s_pending_step_dir (update_before_beans delta_time s) =
     s_pending_step_dir (update_step_queue s)"
  by (simp_all add: update_before_beans_def Let_def update_step_queue_def apply_pyoro_step_eq
        step_rejected_def candidate_x_def)

lemma update_game_playing:
  "state s = GAME_STATE_PLAYING \<Longrightarrow> \<not> game_paused s \<Longrightarrow> \<not> dead (pyoro s) \<Longrightarrow>
   update_game delta_time r1 r2 r3 s =
     update_after_beans (scaled_delta delta_time s) r1 r2 r3
       (update_beans (scaled_delta delta_time s) (update_before_beans delta_time s))"
  by (simp add: update_game_def Let_def)


lemma one_step_state_facts:
  "state one_step_state = GAME_STATE_PLAYING" "\<not> game_paused one_step_state"
  "\<not> dead (pyoro one_step_state)" "\<not> tongue_active (tongue (pyoro one_step_state))"
  "s_pending_step_count one_step_state = 1" "s_pending_step_dir one_step_state = 1"
  "pyoro_x (pyoro one_step_state) = 10"
  "blocks one_step_state = replicate 20 \<lparr>exists = True, is_repairing = False\<rparr>"
  by (simp_all add: one_step_state_def prv_down_click_handler_def start_defs Let_def
        game_consts)


subsection \<open>The character stays on the stage\<close>

lemma apply_pyoro_step_on_stage:
  "on_stage s \<Longrightarrow> on_stage (snd (apply_pyoro_step d s))"
  "fst (apply_pyoro_step d s) \<Longrightarrow> on_stage (snd (apply_pyoro_step d s))"
  using candidate_x_on_stage [of d s]
  by (auto simp: apply_pyoro_step_eq on_stage_def split: if_splits)

lemma update_step_queue_on_stage:
  "on_stage s \<Longrightarrow> on_stage (update_step_queue s)"
  using apply_pyoro_step_on_stage(1) [of s "s_pending_step_dir s"]
  by (simp add: update_step_queue_def Let_def on_stage_def)

lemma update_game_on_stage:
  assumes "on_stage s"
  shows "on_stage (update_game delta_time r1 r2 r3 s)"
proof (cases "state s = GAME_STATE_PLAYING \<and> \<not> game_paused s \<and> \<not> dead (pyoro s)")
  case True
  then have "pyoro_x (pyoro (update_game delta_time r1 r2 r3 s)) =
               pyoro_x (pyoro (update_step_queue s))"
    by (simp add: update_game_playing update_before_beans_step)
  with update_step_queue_on_stage [OF assms] show ?thesis
    by (simp add: on_stage_def)
next
  case False
  with assms show ?thesis
    by (auto simp: update_game_def Let_def on_stage_def)
qed

lemma handle_event_on_stage:
  assumes "on_stage s"
  shows "on_stage (handle_event e s)"
proof (cases e)
  case (Tick delta_time r1 r2 r3)
  with assms show ?thesis by (simp add: update_game_on_stage)
next
  case Select
  with assms show ?thesis
    by (simp add: prv_select_click_handler_def reset_game_def init_game_def on_stage_def
          game_consts)
next
  case Up
  with assms show ?thesis by (simp add: prv_up_click_handler_def on_stage_def Let_def)
next
  case Down
  with assms show ?thesis by (simp add: prv_down_click_handler_def on_stage_def Let_def)
next
  case UpRepeat
  with assms show ?thesis
    by (simp add: prv_up_repeating_click_handler_def on_stage_def Let_def)
next
  case DownRepeat
  with assms show ?thesis
    by (simp add: prv_down_repeating_click_handler_def on_stage_def Let_def)
qed

lemma reachable_on_stage: "reachable s \<Longrightarrow> on_stage s"
proof (induction rule: reachable.induct)
  case (start stored)
  show ?case
    by (simp add: prv_window_load_def init_game_def on_stage_def game_consts)
next
  case (step s e)
  then show ?case by (simp add: handle_event_on_stage)
qed

text \<open>
  Claim C7. A queued step that is applied leaves the character's x position within
  \<open>[PYORO_SIZE/2, GAME_WIDTH - PYORO_SIZE/2] = [1, 19]\<close>; the game starts with the
  character at the centre, so in every reachable state, and after a step attempted from
  any reachable state, the position is within these bounds.
\<close>

theorem position_on_stage:
  "(reachable s \<longrightarrow>
      real_of_int PYORO_SIZE / 2 \<le> pyoro_x (pyoro s) \<and>
      pyoro_x (pyoro s) \<le> real_of_int GAME_WIDTH - real_of_int PYORO_SIZE / 2 \<and>
      1 \<le> pyoro_x (pyoro (snd (apply_pyoro_step d s))) \<and>
      pyoro_x (pyoro (snd (apply_pyoro_step d s))) \<le> 19) \<and>
   (fst (apply_pyoro_step d s) \<longrightarrow>
      1 \<le> pyoro_x (pyoro (snd (apply_pyoro_step d s))) \<and>
      pyoro_x (pyoro (snd (apply_pyoro_step d s))) \<le> 19)"
  using reachable_on_stage [of s] apply_pyoro_step_on_stage [where s = s and d = d]
  by (auto simp: on_stage_def game_consts)

theorem position_on_stage_witness:
  "reachable one_step_state \<and> fst (apply_pyoro_step 1 one_step_state) \<and>
   1 \<le> pyoro_x (pyoro one_step_state) \<and> pyoro_x (pyoro one_step_state) \<le> 19 \<and>
   1 \<le> pyoro_x (pyoro (snd (apply_pyoro_step 1 one_step_state))) \<and>
   pyoro_x (pyoro (snd (apply_pyoro_step 1 one_step_state))) \<le> 19"
proof -
  have "reachable (handle_event Down (handle_event Select (prv_window_load None)))"
    by (intro reachable.intros)
  then have r: "reachable one_step_state"
    by (simp add: one_step_state_def playing_state_def)
  have cand: "candidate_x 1 one_step_state = 10.25"
    by (simp add: candidate_x_def one_step_state_facts game_consts)
  have cols: "footprint_columns (candidate_x 1 one_step_state) = [9, 10, 11]"
    by (simp add: cand footprint_columns_def int_of_float_def game_consts upto.simps)
  have ok: "\<not> step_rejected 1 one_step_state"
    by (simp add: step_rejected_def cols one_step_state_facts)
  then have f: "fst (apply_pyoro_step 1 one_step_state)"
    by (simp add: apply_pyoro_step_eq)
  from position_on_stage [of one_step_state 1] r f show ?thesis
    by (simp add: game_consts)
qed

subsection \<open>The score of a catch\<close>

lemma held_update_position [simp]:
  "held (b\<lparr>bean_x := x, bean_y := y\<rparr>) = held b"
  by (simp add: held_def)


lemma update_before_beans_retracting:
  assumes "tongue_active (tongue (pyoro s))" and "going_back (tongue (pyoro s))"
  shows "update_before_beans delta_time s =
           tongue_retract (scaled_delta delta_time s)
             (s\<lparr>game_speed := game_speed s + scaled_delta delta_time s * SPEED_ACCELERATION,
                s_pending_step_count := 0, s_pending_step_dir := 0,
                s_frame_count := s_frame_count s + 1\<rparr>)"
  using assms by (simp add: update_before_beans_def update_step_queue_def update_tongue_def Let_def)

lemma reachable_pyoro_y: "reachable s \<Longrightarrow> pyoro_y (pyoro s) = real_of_int GAME_HEIGHT - 2"
proof (induction rule: reachable.induct)
  case (start stored)
  show ?case by (simp add: prv_window_load_def init_game_def)
next
  case (step s e)
  then show ?case
    by (cases e)
       (auto simp: update_game_def Let_def update_after_beans_def update_beans_def
          prv_select_click_handler_def reset_game_def init_game_def prv_up_click_handler_def
          prv_down_click_handler_def prv_up_repeating_click_handler_def
          prv_down_repeating_click_handler_def)
qed




text \<open>The character's \<open>y\<close> is \<open>GAME_HEIGHT - 2 = 18\<close> in every reachable state, below the
  last band boundary at 16: a retraction that completes in a running game completes in
  the lowest band.\<close>

lemma reachable_award_baseline:
  assumes "reachable s" and "retracted_y delta_time s \<ge> pyoro_y (pyoro s)"
  shows "score_add (retracted_y delta_time s) = 10"
  using assms reachable_pyoro_y [of s]
  by (simp add: score_add_def GAME_HEIGHT_def)

subsection \<open>The tongue, given the bean it finds\<close>

lemma find_destroyed_block_cong:
  "blocks s' = blocks s \<Longrightarrow> find_destroyed_block s' = find_destroyed_block s"
  by (simp add: find_destroyed_block_def)

lemma first_held:
  assumes "\<exists>i<5. held (beans s ! i)"
  obtains i where "i < 5" and "held (beans s ! i)" and "\<forall>j. 0 \<le> j \<and> j < i \<longrightarrow> \<not> held (beans s ! j)"
proof -
  from assms obtain i0 where "i0 < 5" "held (beans s ! i0)" by blast
  then show thesis
    by (rule first_index [of 0 i0 5 "\<lambda>j. held (beans s ! j)", OF le0]) (rule that)
qed


text \<open>Retraction when the tongue's \<open>caught_bean\<close> flag is clear: the two bean loops are
  not run.\<close>

lemma tongue_retract_no_flag:
  assumes "\<not> caught_bean (tongue (pyoro s))"
  shows "tongue_retract dt s =
     s\<lparr>pyoro := (pyoro s)\<lparr>tongue := (tongue (pyoro s))\<lparr>
          tongue_x := tongue_x (tongue (pyoro s)) -
             real_of_int (tongue_direction (tongue (pyoro s))) * (TONGUE_SPEED * 2 * dt),
          tongue_y := tongue_y (tongue (pyoro s)) + TONGUE_SPEED * 2 * dt,
          tongue_active := tongue_active (tongue (pyoro s)) \<and>
             \<not> tongue_y (tongue (pyoro s)) + TONGUE_SPEED * 2 * dt \<ge> pyoro_y (pyoro s)\<rparr>\<rparr>\<rparr>"
  using assms by (simp add: tongue_retract_def Let_def)

text \<open>Retraction when bean \<open>i\<close> is the first held bean and the flag is set: the bean moves
  to the tip; when the tip is back, the angel may be called, the score grows, the bean
  is removed and the tongue becomes inactive.\<close>

lemma tongue_retract_first:
  assumes len: "length (beans s) = 5" and cb: "caught_bean (tongue (pyoro s))"
    and i: "i < 5" "held (beans s ! i)" "\<forall>j. 0 \<le> j \<and> j < i \<longrightarrow> \<not> held (beans s ! j)"
  shows "tongue_retract dt s =
     (let tx = tongue_x (tongue (pyoro s)) -
                 real_of_int (tongue_direction (tongue (pyoro s))) * (TONGUE_SPEED * 2 * dt);
          ty = tongue_y (tongue (pyoro s)) + TONGUE_SPEED * 2 * dt;
          s2 = s\<lparr>pyoro := (pyoro s)\<lparr>tongue := (tongue (pyoro s))\<lparr>tongue_x := tx, tongue_y := ty\<rparr>\<rparr>,
                 beans := (beans s)[i := (beans s ! i)\<lparr>bean_x := tx, bean_y := ty\<rparr>]\<rparr>
      in if ty \<ge> pyoro_y (pyoro s) then
           (let s3 = (if bean_type (beans s ! i) = BEAN_TYPE_PINK \<and> find_destroyed_block s \<ge> 0
                      then spawn_angel (find_destroyed_block s) s2 else s2)
            in s3\<lparr>score := score s + score_add ty,
                   beans := (beans s)[i := (beans s ! i)\<lparr>bean_x := tx, bean_y := ty,
                                                         active := False\<rparr>],
                   pyoro := (pyoro s)\<lparr>tongue := (tongue (pyoro s))\<lparr>
                      tongue_x := tx, tongue_y := ty, tongue_active := False\<rparr>\<rparr>\<rparr>)
         else s2)"
proof -
  define tx where "tx = tongue_x (tongue (pyoro s)) -
                 real_of_int (tongue_direction (tongue (pyoro s))) * (TONGUE_SPEED * 2 * dt)"
  define ty where "ty = tongue_y (tongue (pyoro s)) + TONGUE_SPEED * 2 * dt"
  define s1 where "s1 = s\<lparr>pyoro := (pyoro s)\<lparr>tongue := (tongue (pyoro s))\<lparr>tongue_x := tx, tongue_y := ty\<rparr>\<rparr>\<rparr>"
  define s2 where "s2 = s1\<lparr>beans := (beans s)[i := (beans s ! i)\<lparr>bean_x := tx, bean_y := ty\<rparr>]\<rparr>"
  have m: "move_caught_loop 0 s1 = s2"
    using i by (subst move_caught_loop_first [of 0 i]) (simp_all add: s1_def s2_def)
  have h2: "\<And>j. j < 5 \<Longrightarrow> held (beans s2 ! j) = held (beans s ! j)"
    using len i(1) by (simp add: s2_def s1_def nth_list_update)
  have fd: "find_destroyed_block s2 = find_destroyed_block s"
    by (rule find_destroyed_block_cong) (simp add: s2_def s1_def)
  have r: "remove_caught_loop 0 s2 =
     (let s' = (if bean_type (beans s2 ! i) = BEAN_TYPE_PINK \<and> find_destroyed_block s2 \<ge> 0
                then spawn_angel (find_destroyed_block s2) s2 else s2)
      in s'\<lparr>score := score s2 + score_add (tongue_y (tongue (pyoro s2))),
             beans := (beans s2)[i := (beans s2 ! i)\<lparr>active := False\<rparr>]\<rparr>)"
    using i h2 by (intro remove_caught_loop_first) simp_all
  have b2: "beans s2 ! i = (beans s ! i)\<lparr>bean_x := tx, bean_y := ty\<rparr>"
    using len i(1) by (simp add: s2_def)
  have unfold: "tongue_retract dt s =
      (if ty \<ge> pyoro_y (pyoro s) then
         (remove_caught_loop 0 s2)\<lparr>pyoro := (pyoro (remove_caught_loop 0 s2))\<lparr>
             tongue := (tongue (pyoro (remove_caught_loop 0 s2)))\<lparr>tongue_active := False\<rparr>\<rparr>\<rparr>
       else s2)"
    using cb m
    by (simp add: tongue_retract_def Let_def tx_def [symmetric] ty_def [symmetric]
          s1_def [symmetric])
       (simp add: s2_def s1_def)
  show ?thesis
    unfolding unfold Let_def tx_def [symmetric] ty_def [symmetric]
    by (simp add: r fd b2 Let_def) (simp add: s2_def s1_def)
qed

text \<open>Extension: the tip moves; the first bean it overlaps, if any, is caught.\<close>

lemma tongue_extend_none:
  assumes "\<forall>j<5. \<not> catchable
      (s\<lparr>pyoro := (pyoro s)\<lparr>tongue := (tongue (pyoro s))\<lparr>
          tongue_x := tongue_x (tongue (pyoro s)) +
             real_of_int (tongue_direction (tongue (pyoro s))) * (TONGUE_SPEED * dt),
          tongue_y := tongue_y (tongue (pyoro s)) - TONGUE_SPEED * dt\<rparr>\<rparr>\<rparr>) (beans s ! j)"
  shows "tongue_extend dt s =
     (let tx = tongue_x (tongue (pyoro s)) +
                 real_of_int (tongue_direction (tongue (pyoro s))) * (TONGUE_SPEED * dt);
          ty = tongue_y (tongue (pyoro s)) - TONGUE_SPEED * dt
      in s\<lparr>pyoro := (pyoro s)\<lparr>tongue := (tongue (pyoro s))\<lparr>
            tongue_x := tx, tongue_y := ty,
            going_back := going_back (tongue (pyoro s)) \<or>
                          tx < 0 \<or> tx > real_of_int GAME_WIDTH \<or> ty < 0\<rparr>\<rparr>\<rparr>)"
proof -
  define s1 where "s1 = s\<lparr>pyoro := (pyoro s)\<lparr>tongue := (tongue (pyoro s))\<lparr>
          tongue_x := tongue_x (tongue (pyoro s)) +
             real_of_int (tongue_direction (tongue (pyoro s))) * (TONGUE_SPEED * dt),
          tongue_y := tongue_y (tongue (pyoro s)) - TONGUE_SPEED * dt\<rparr>\<rparr>\<rparr>"
  have "catch_loop 0 s1 = s1"
    using assms by (intro catch_loop_none) (simp add: s1_def)
  then show ?thesis
    by (simp add: tongue_extend_def Let_def s1_def [symmetric]) (auto simp: s1_def)
qed

lemma tongue_extend_first:
  assumes len: "length (beans s) = 5"
    and i: "i < 5"
      "catchable
        (s\<lparr>pyoro := (pyoro s)\<lparr>tongue := (tongue (pyoro s))\<lparr>
          tongue_x := tongue_x (tongue (pyoro s)) +
             real_of_int (tongue_direction (tongue (pyoro s))) * (TONGUE_SPEED * dt),
          tongue_y := tongue_y (tongue (pyoro s)) - TONGUE_SPEED * dt\<rparr>\<rparr>\<rparr>) (beans s ! i)"
      "\<forall>j. 0 \<le> j \<and> j < i \<longrightarrow> \<not> catchable
        (s\<lparr>pyoro := (pyoro s)\<lparr>tongue := (tongue (pyoro s))\<lparr>
          tongue_x := tongue_x (tongue (pyoro s)) +
             real_of_int (tongue_direction (tongue (pyoro s))) * (TONGUE_SPEED * dt),
          tongue_y := tongue_y (tongue (pyoro s)) - TONGUE_SPEED * dt\<rparr>\<rparr>\<rparr>) (beans s ! j)"
  shows "tongue_extend dt s =
     s\<lparr>pyoro := (pyoro s)\<lparr>tongue := (tongue (pyoro s))\<lparr>
          tongue_x := tongue_x (tongue (pyoro s)) +
             real_of_int (tongue_direction (tongue (pyoro s))) * (TONGUE_SPEED * dt),
          tongue_y := tongue_y (tongue (pyoro s)) - TONGUE_SPEED * dt,
          caught_bean := True, going_back := True\<rparr>\<rparr>,
       beans := (beans s)[i := (beans s ! i)\<lparr>caught := True\<rparr>]\<rparr>"
proof -
  define s1 where "s1 = s\<lparr>pyoro := (pyoro s)\<lparr>tongue := (tongue (pyoro s))\<lparr>
          tongue_x := tongue_x (tongue (pyoro s)) +
             real_of_int (tongue_direction (tongue (pyoro s))) * (TONGUE_SPEED * dt),
          tongue_y := tongue_y (tongue (pyoro s)) - TONGUE_SPEED * dt\<rparr>\<rparr>\<rparr>"
  have b1: "beans s1 = beans s" by (simp add: s1_def)
  have "catch_loop 0 s1 =
     s1\<lparr>beans := (beans s1)[i := (beans s1 ! i)\<lparr>caught := True\<rparr>],
       pyoro := (pyoro s1)\<lparr>tongue := (tongue (pyoro s1))\<lparr>caught_bean := True,
                                                         going_back := True\<rparr>\<rparr>\<rparr>"
    using i unfolding s1_def [symmetric] by (intro catch_loop_first) (simp_all add: b1)
  then show ?thesis
    by (simp add: tongue_extend_def Let_def s1_def [symmetric]) (simp add: s1_def)
qed

subsection \<open>The bean loop\<close>

text \<open>The statements of the loop body change slot \<open>i\<close> only.\<close>

lemma bean_fall_nth:
  "beans (bean_fall dt i s) ! j =
     (if j = i \<and> i < length (beans s)
      then (beans s ! i)\<lparr>bean_y := bean_y (beans s ! i) +
                             BEAN_SPEED * speed (beans s ! i) * dt * game_speed s\<rparr>
      else beans s ! j)"
  by (cases "i < length (beans s)") (auto simp: bean_fall_def list_update_beyond)

lemma bean_ground_nth:
  "beans (bean_ground i s) ! j =
     (if j = i \<and> i < length (beans s) \<and> bean_y (beans s ! i) \<ge> real_of_int GAME_HEIGHT - 1
      then (beans s ! i)\<lparr>active := False\<rparr>
      else beans s ! j)"
  by (cases "i < length (beans s)") (auto simp: bean_ground_def Let_def list_update_beyond)

lemma is_repairing_update_exists [simp]:
  "is_repairing (bl[n := (bl ! n)\<lparr>exists := e\<rparr>] ! j) = is_repairing (bl ! j)"
  by (cases "n < length bl") (simp_all add: nth_list_update list_update_beyond)

lemma bean_ground_repairing [simp]:
  "is_repairing (blocks (bean_ground i s) ! j) = is_repairing (blocks s ! j)"
  by (simp add: bean_ground_def Let_def)


lemma update_beans_loop_skips:
  "\<not> (active (beans s ! j) \<and> \<not> caught (beans s ! j)) \<Longrightarrow>
   beans (update_beans_loop dt k s) ! j = beans s ! j"
proof (induction dt k s rule: update_beans_loop.induct)
  case (1 dt i s)
  then show ?case
    by (subst update_beans_loop.simps) (auto simp: bean_fall_nth bean_ground_nth)
qed

lemma update_beans_loop_flags:
  "caught (beans (update_beans_loop dt k s) ! j) = caught (beans s ! j) \<and>
   (active (beans (update_beans_loop dt k s) ! j) \<longrightarrow> active (beans s ! j))"
proof (induction dt k s rule: update_beans_loop.induct)
  case (1 dt i s)
  then show ?case
    by (subst (1 2) update_beans_loop.simps) (auto simp: bean_fall_nth bean_ground_nth)
qed

lemma update_beans_loop_held:
  "held (beans (update_beans_loop dt k s) ! j) = held (beans s ! j)"
proof (cases "held (beans s ! j)")
  case True
  then show ?thesis by (simp add: update_beans_loop_skips held_def)
next
  case False
  with update_beans_loop_flags [of dt k s j] show ?thesis
    by (auto simp: held_def)
qed

lemma update_beans_loop_repairing:
  "is_repairing (blocks (update_beans_loop dt k s) ! j) = is_repairing (blocks s ! j)"
proof (induction dt k s rule: update_beans_loop.induct)
  case (1 dt i s)
  then show ?case
    by (subst update_beans_loop.simps) simp
qed


subsection \<open>How far a bean falls in a tick\<close>

lemma first_catchable:
  assumes "\<exists>i<5. catchable s' (beans s ! i)"
  obtains i where "i < 5" and "catchable s' (beans s ! i)"
    and "\<forall>j. 0 \<le> j \<and> j < i \<longrightarrow> \<not> catchable s' (beans s ! j)"
proof -
  from assms obtain i0 where "i0 < 5" "catchable s' (beans s ! i0)" by blast
  then show thesis
    by (rule first_index [of 0 i0 5 "\<lambda>j. catchable s' (beans s ! j)", OF le0]) (rule that)
qed






text \<open>Spawning writes only to a slot that is inactive.\<close>

lemma spawn_bean_active:
  assumes "active (beans s ! j)"
  shows "beans (spawn_bean r1 r2 r3 s) ! j = beans s ! j"
proof (cases "\<exists>i<5. \<not> active (beans s ! i)")
  case False
  then have "\<forall>j. 0 \<le> j \<and> j < 5 \<longrightarrow> active (beans s ! j)" by blast
  then show ?thesis by (simp add: spawn_bean_def spawn_bean_loop_none)
next
  case True
  then obtain i0 where "i0 < 5" "\<not> active (beans s ! i0)" by blast
  then obtain i where i: "0 \<le> i" "i < 5" "\<not> active (beans s ! i)"
      "\<forall>j. 0 \<le> j \<and> j < i \<longrightarrow> \<not> \<not> active (beans s ! j)"
    by (rule first_index [of 0 i0 5 "\<lambda>j. \<not> active (beans s ! j)", OF le0])
  then have "i \<noteq> j" using assms by blast
  with i show ?thesis
    by (simp add: spawn_bean_def spawn_bean_loop_first [of 0 i])
qed

lemma update_after_beans_active:
  assumes "active (beans s ! j)"
  shows "beans (update_after_beans dt r1 r2 r3 s) ! j = beans s ! j"
  using assms spawn_bean_active [of "(update_angel dt s)\<lparr>bean_spawn_timer :=
      bean_spawn_timer (update_angel dt s) + dt\<rparr>" j r1 r2 r3]
  by (simp add: update_after_beans_def update_spawn_def Let_def)








subsection \<open>The short game, step by step\<close>

lemmas tick_defs =
  update_game_def update_before_beans_def update_after_beans_def scaled_delta_def
  update_step_queue_def apply_pyoro_step_def update_tongue_def tongue_retract_def
  tongue_extend_def update_beans_def update_angel_def update_spawn_def spawn_bean_def
  update_background_def spawn_angel_def find_destroyed_block_def
  bean_fall_def bean_hits_pyoro_def pyoro_dies_def bean_ground_def check_collision_def
  score_add_def int_of_float_def c_div_def Let_def

lemmas loop_simps =
  move_caught_loop.simps remove_caught_loop.simps catch_loop.simps update_beans_loop.simps
  spawn_bean_loop.simps find_destroyed_block_loop.simps

lemma playing_state_explicit:
  "playing_state =
     \<lparr>state = GAME_STATE_PLAYING,
      pyoro = \<lparr>pyoro_x = 10, pyoro_y = 18, direction = 1, moving = False, dead = False,
               button_held = False,
               tongue = \<lparr>tongue_active = False, tongue_x = 0, tongue_y = 0,
                         tongue_direction = 0, going_back = False, caught_bean = False\<rparr>\<rparr>,
      beans = replicate 5 \<lparr>bean_x = 0, bean_y = 0, speed = 0, active = False,
                            caught = False, bean_type = BEAN_TYPE_GREEN\<rparr>,
      blocks = replicate 20 \<lparr>exists = True, is_repairing = False\<rparr>,
      angel = \<lparr>angel_x = 0, angel_y = 0, angel_active = False, target_block_index = 0,
               going_up = False\<rparr>,
      score = 0, game_speed = 1, bean_spawn_timer = 0, death_timer = 0,
      game_paused = False,
      s_background_index = 0,
      s_high_scores = replicate 10 (- 1),
      s_last_game_score = 0,
      s_frame_count = 0,
      s_pending_step_dir = 0,
      s_pending_step_count = 0\<rparr>"
  by (simp add: start_defs game_consts)

lemmas short_game_defs =
  st_spawned_def st_broken_def st_pink_low_def st_tongue_out_def st_caught_def
  st_angel_down_def st_angel_up_def playing_state_explicit

lemma short_game_steps:
  "handle_event (Tick 2 0 0 0) playing_state = st_spawned"
  "handle_event (Tick 20 15 50 0) st_spawned = st_broken"
  "handle_event (Tick 5 0 0 4) st_broken = st_pink_low"
  "handle_event Select st_pink_low = st_tongue_out"
  "handle_event (Tick 0.1 0 0 0) st_tongue_out = st_caught"
  "handle_event (Tick 0.1 0 0 0) st_caught = st_angel_down"
  "handle_event (Tick 0.5 0 0 0) st_angel_down = st_angel_up"
  by (simp_all add: short_game_defs prv_select_click_handler_def tick_defs loop_simps
        game_consts)

lemma short_game_reachable:
  "reachable playing_state" "reachable st_spawned" "reachable st_broken"
  "reachable st_pink_low" "reachable st_tongue_out" "reachable st_caught"
  "reachable st_angel_down" "reachable st_angel_up"
proof -
  show 0: "reachable playing_state"
    unfolding playing_state_def
    using reachable.step [OF reachable.start, of Select None] by simp
  from reachable.step [OF 0, of "Tick 2 0 0 0"]
  show 1: "reachable st_spawned" by (simp only: short_game_steps)
  from reachable.step [OF 1, of "Tick 20 15 50 0"]
  show 2: "reachable st_broken" by (simp only: short_game_steps)
  from reachable.step [OF 2, of "Tick 5 0 0 4"]
  show 3: "reachable st_pink_low" by (simp only: short_game_steps)
  from reachable.step [OF 3, of Select]
  show 4: "reachable st_tongue_out" by (simp only: short_game_steps)
  from reachable.step [OF 4, of "Tick 0.1 0 0 0"]
  show 5: "reachable st_caught" by (simp only: short_game_steps)
  from reachable.step [OF 5, of "Tick 0.1 0 0 0"]
  show 6: "reachable st_angel_down" by (simp only: short_game_steps)
  from reachable.step [OF 6, of "Tick 0.5 0 0 0"]
  show "reachable st_angel_up" by (simp only: short_game_steps)
qed

subsection \<open>The angel and the block it repairs\<close>

lemma spawn_angel_angel_inv:
  assumes "angel_inv s"
  shows "angel_inv (spawn_angel b s)"
proof (cases "b < 0 \<or> b \<ge> GAME_WIDTH \<or> exists (blocks s ! nat b) \<or>
              is_repairing (blocks s ! nat b) \<or> angel_active (angel s)")
  case True
  with assms show ?thesis by (auto simp: spawn_angel_def)
next
  case False
  with assms show ?thesis
    by (auto simp: spawn_angel_def angel_inv_def nth_list_update GAME_WIDTH_def
          split: if_splits)
qed

lemma angel_inv_cong:
  "blocks s' = blocks s \<Longrightarrow> angel s' = angel s \<Longrightarrow> angel_inv s' = angel_inv s"
  by (simp add: angel_inv_def)

lemma remove_caught_loop_angel_inv:
  "angel_inv s \<Longrightarrow> angel_inv (remove_caught_loop i s)"
proof (induction i s rule: remove_caught_loop.induct)
  case (1 i s)
  have upd: "\<And>s' sc bs. angel_inv (s'\<lparr>score := sc, beans := bs\<rparr>) = angel_inv s'"
    by (simp add: angel_inv_def)
  from 1 show ?case
    by (subst remove_caught_loop.simps)
       (auto simp: Let_def upd spawn_angel_angel_inv)
qed

lemma tongue_retract_angel_inv:
  assumes "angel_inv s"
  shows "angel_inv (tongue_retract dt s)"
proof -
  have upd: "\<And>s' p. angel_inv (s'\<lparr>pyoro := p\<rparr>) = angel_inv s'"
    by (simp add: angel_inv_def)
  have mv: "\<And>s'. angel_inv (move_caught_loop 0 s') = angel_inv s'"
    by (rule angel_inv_cong) simp_all
  from assms show ?thesis
    by (simp add: tongue_retract_def Let_def upd mv remove_caught_loop_angel_inv)
qed

lemma update_before_beans_angel_inv:
  assumes "angel_inv s"
  shows "angel_inv (update_before_beans delta_time s)"
proof -
  define s3 where "s3 = (update_step_queue
           (s\<lparr>game_speed := game_speed s + scaled_delta delta_time s * SPEED_ACCELERATION\<rparr>))
         \<lparr>s_frame_count := s_frame_count (update_step_queue
           (s\<lparr>game_speed := game_speed s + scaled_delta delta_time s * SPEED_ACCELERATION\<rparr>)) + 1\<rparr>"
  have u: "update_before_beans delta_time s = update_tongue (scaled_delta delta_time s) s3"
    by (simp add: update_before_beans_def Let_def s3_def)
  have "angel_inv s3 = angel_inv s"
    by (rule angel_inv_cong) (simp_all add: s3_def)
  with assms have i3: "angel_inv s3" by simp
  have ext: "angel_inv (tongue_extend (scaled_delta delta_time s) s3) = angel_inv s3"
    by (rule angel_inv_cong) simp_all
  from i3 ext show ?thesis
    by (simp add: u update_tongue_def tongue_retract_angel_inv)
qed

lemma update_beans_angel_inv:
  assumes "angel_inv s"
  shows "angel_inv (update_beans dt s)"
  using assms
  by (simp add: angel_inv_def update_beans_def update_beans_loop_repairing)

lemma update_angel_angel_inv:
  assumes "angel_inv s"
  shows "angel_inv (update_angel dt s)"
  using assms
  by (auto simp: angel_inv_def update_angel_def Let_def nth_list_update GAME_WIDTH_def
        split: if_splits)

lemma update_after_beans_angel_inv:
  assumes "angel_inv s"
  shows "angel_inv (update_after_beans dt r1 r2 r3 s)"
proof -
  have "angel_inv (update_after_beans dt r1 r2 r3 s) = angel_inv (update_angel dt s)"
    by (rule angel_inv_cong) (simp_all add: update_after_beans_def)
  with assms show ?thesis by (simp add: update_angel_angel_inv)
qed

lemma update_game_angel_inv:
  assumes "angel_inv s"
  shows "angel_inv (update_game delta_time r1 r2 r3 s)"
proof (cases "state s = GAME_STATE_PLAYING \<and> \<not> game_paused s \<and> \<not> dead (pyoro s)")
  case True
  with assms show ?thesis
    by (simp add: update_game_playing update_after_beans_angel_inv update_beans_angel_inv
          update_before_beans_angel_inv)
next
  case False
  have "angel_inv (update_game delta_time r1 r2 r3 s) = angel_inv s"
    using False by (intro angel_inv_cong) (auto simp: update_game_def Let_def)
  with assms show ?thesis by simp
qed

lemma init_game_angel_inv:
  "length (blocks s) = nat GAME_WIDTH \<Longrightarrow> angel_inv (init_game s)"
  by (simp add: angel_inv_def init_game_def)

lemma handle_event_angel_inv:
  assumes "angel_inv s"
  shows "angel_inv (handle_event e s)"
proof (cases e)
  case (Tick delta_time r1 r2 r3)
  with assms show ?thesis by (simp add: update_game_angel_inv)
next
  case Select
  from assms have len: "length (blocks s) = nat GAME_WIDTH" by (simp add: angel_inv_def)
  have "angel_inv (reset_game s) = angel_inv (init_game s)"
    by (rule angel_inv_cong) (simp_all add: reset_game_def)
  with len have r: "angel_inv (reset_game s)" by (simp add: init_game_angel_inv)
  have "state s \<noteq> GAME_STATE_MENU \<Longrightarrow> angel_inv (prv_select_click_handler s) = angel_inv s"
    by (rule angel_inv_cong) (simp_all add: prv_select_click_handler_def)
  with assms r Select show ?thesis
    by (cases "state s = GAME_STATE_MENU") (simp_all add: prv_select_click_handler_def)
next
  case Up
  have "angel_inv (prv_up_click_handler s) = angel_inv s"
    by (rule angel_inv_cong) (simp_all add: prv_up_click_handler_def Let_def)
  with assms Up show ?thesis by simp
next
  case Down
  have "angel_inv (prv_down_click_handler s) = angel_inv s"
    by (rule angel_inv_cong) (simp_all add: prv_down_click_handler_def Let_def)
  with assms Down show ?thesis by simp
next
  case UpRepeat
  have "angel_inv (prv_up_repeating_click_handler s) = angel_inv s"
    by (rule angel_inv_cong) (simp_all add: prv_up_repeating_click_handler_def Let_def)
  with assms UpRepeat show ?thesis by simp
next
  case DownRepeat
  have "angel_inv (prv_down_repeating_click_handler s) = angel_inv s"
    by (rule angel_inv_cong) (simp_all add: prv_down_repeating_click_handler_def Let_def)
  with assms DownRepeat show ?thesis by simp
qed

lemma reachable_angel_inv: "reachable s \<Longrightarrow> angel_inv s"
proof (induction rule: reachable.induct)
  case (start stored)
  show ?case
    unfolding prv_window_load_def
    by (rule init_game_angel_inv)
       (simp add: load_high_scores_def zero_statics_def Let_def split: option.split)
next
  case (step s e)
  from step.IH show ?case by (rule handle_event_angel_inv)
qed

text \<open>
  Claim C3, as amended. The state holds a single angel. In every reachable state, when
  the angel is active and still descending, its target index is on the grid and the
  target block's \<open>is_repairing\<close> flag is set; and every block whose flag is set is the
  target of the active, descending angel, so at most one block is being repaired.
  (When the angel reaches the ground it clears the flag and stays active while it goes
  back up.)
\<close>

theorem angel_target_repairing:
  assumes "reachable s"
  shows "length (blocks s) = nat GAME_WIDTH \<and>
         (angel_active (angel s) \<and> \<not> going_up (angel s) \<longrightarrow>
            0 \<le> target_block_index (angel s) \<and> target_block_index (angel s) < GAME_WIDTH \<and>
            is_repairing (blocks s ! nat (target_block_index (angel s)))) \<and>
         (\<forall>j < nat GAME_WIDTH. is_repairing (blocks s ! j) \<longrightarrow>
            angel_active (angel s) \<and> \<not> going_up (angel s) \<and>
            target_block_index (angel s) = int j)"
  using reachable_angel_inv [OF assms] by (simp add: angel_inv_def)

lemma st_angel_down_facts:
  "angel_active (angel st_angel_down)" "\<not> going_up (angel st_angel_down)"
  "target_block_index (angel st_angel_down) = 0"
  "blocks st_angel_down ! 0 = \<lparr>exists = False, is_repairing = True\<rparr>"
  by (simp_all add: short_game_defs)

lemma st_angel_up_facts:
  "angel_active (angel st_angel_up)" "going_up (angel st_angel_up)"
  "target_block_index (angel st_angel_up) = 0"
  "blocks st_angel_up ! 0 = \<lparr>exists = True, is_repairing = False\<rparr>"
  by (simp_all add: short_game_defs)

theorem angel_target_repairing_witness:
  "reachable st_angel_down \<and> angel_active (angel st_angel_down) \<and>
   \<not> going_up (angel st_angel_down) \<and> target_block_index (angel st_angel_down) = 0 \<and>
   is_repairing (blocks st_angel_down ! 0) \<and>
   \<not> is_repairing (blocks st_angel_down ! 1) \<and>
   \<not> is_repairing (blocks st_angel_down ! 19)"
proof -
  note t = angel_target_repairing [OF short_game_reachable(7)]
  from t st_angel_down_facts(1-3)
  have r0: "is_repairing (blocks st_angel_down ! 0)" by simp
  from t
  have u: "j < 20 \<Longrightarrow> is_repairing (blocks st_angel_down ! j) \<Longrightarrow>
             target_block_index (angel st_angel_down) = int j" for j
    by (simp add: GAME_WIDTH_def)
  from u [of 1] u [of 19] st_angel_down_facts(3)
  have r1: "\<not> is_repairing (blocks st_angel_down ! 1)"
    "\<not> is_repairing (blocks st_angel_down ! 19)"
    by auto
  from r0 r1 short_game_reachable(7) st_angel_down_facts(1-3) show ?thesis
    by simp
qed

text \<open>The claim as stated fails: after the angel has repaired block 0 it is still
  active, on its way up, and the flag of its target block is clear.\<close>

theorem angel_target_repairing_counterexample:
  "reachable st_angel_up \<and> angel_active (angel st_angel_up) \<and>
   \<not> is_repairing (blocks st_angel_up ! nat (target_block_index (angel st_angel_up)))"
  using short_game_reachable(8) by (simp add: st_angel_up_facts)

subsection \<open>The tongue holds at most one bean\<close>

lemma catch_inv_cong:
  assumes "length (beans s') = length (beans s)"
    and "\<And>j. j < 5 \<Longrightarrow> held (beans s' ! j) = held (beans s ! j)"
    and "tongue_active (tongue (pyoro s')) = tongue_active (tongue (pyoro s))"
    and "caught_bean (tongue (pyoro s')) = caught_bean (tongue (pyoro s))"
    and "going_back (tongue (pyoro s')) = going_back (tongue (pyoro s))"
  shows "catch_inv s' = catch_inv s"
  using assms by (simp add: catch_inv_def cong: conj_cong)

lemma catch_inv_none:
  assumes "length (beans s) = 5" and "\<And>j. j < 5 \<Longrightarrow> \<not> held (beans s ! j)"
    and "\<not> (tongue_active (tongue (pyoro s)) \<and> caught_bean (tongue (pyoro s)))"
  shows "catch_inv s"
  using assms by (auto simp: catch_inv_def)

lemma catch_inv_one:
  assumes "length (beans s) = 5" and "i < 5"
    and "\<And>j. j < 5 \<Longrightarrow> held (beans s ! j) = (j = i)"
    and "tongue_active (tongue (pyoro s))" and "caught_bean (tongue (pyoro s))"
    and "going_back (tongue (pyoro s))"
  shows "catch_inv s"
proof -
  from assms(2,3) have "\<exists>i<5. held (beans s ! i)" by blast
  with assms show ?thesis by (simp add: catch_inv_def)
qed

lemma tongue_retract_catch_inv:
  assumes inv: "catch_inv s" and act: "tongue_active (tongue (pyoro s))"
  shows "catch_inv (tongue_retract dt s)"
proof (cases "caught_bean (tongue (pyoro s))")
  case False
  from inv have len: "length (beans s) = 5" by (simp add: catch_inv_def)
  from inv act False have none: "\<forall>j<5. \<not> held (beans s ! j)" by (auto simp: catch_inv_def)
  show ?thesis
    using len none False
    by (intro catch_inv_none) (simp_all add: tongue_retract_no_flag)
next
  case True
  from inv have len: "length (beans s) = 5" by (simp add: catch_inv_def)
  from inv act True have gb: "going_back (tongue (pyoro s))" by (simp add: catch_inv_def)
  from inv act True have "\<exists>i<5. held (beans s ! i)" by (simp add: catch_inv_def)
  then obtain i where i: "i < 5" "held (beans s ! i)"
      "\<forall>j. 0 \<le> j \<and> j < i \<longrightarrow> \<not> held (beans s ! j)"
    by (rule first_held)
  from inv i(1,2) have uniq: "\<And>j. j < 5 \<Longrightarrow> held (beans s ! j) = (j = i)"
    unfolding catch_inv_def by blast
  note cf = tongue_retract_first [OF len True i, of dt]
  show ?thesis
  proof (cases "tongue_y (tongue (pyoro s)) + TONGUE_SPEED * 2 * dt \<ge> pyoro_y (pyoro s)")
    case True
    have b: "beans (tongue_retract dt s) =
               (beans s)[i := (beans s ! i)\<lparr>
                  bean_x := tongue_x (tongue (pyoro s)) -
                    real_of_int (tongue_direction (tongue (pyoro s))) * (TONGUE_SPEED * 2 * dt),
                  bean_y := tongue_y (tongue (pyoro s)) + TONGUE_SPEED * 2 * dt,
                  active := False\<rparr>]"
      and t: "\<not> tongue_active (tongue (pyoro (tongue_retract dt s)))"
      using True by (simp_all add: cf Let_def)
    show ?thesis
    proof (rule catch_inv_none)
      show "length (beans (tongue_retract dt s)) = 5" using len by (simp add: b)
      show "\<not> held (beans (tongue_retract dt s) ! j)" if "j < 5" for j
        using that uniq [of j] len i(1) by (auto simp: b nth_list_update held_def)
      show "\<not> (tongue_active (tongue (pyoro (tongue_retract dt s))) \<and>
                caught_bean (tongue (pyoro (tongue_retract dt s))))"
        using t by simp
    qed
  next
    case False
    have b: "beans (tongue_retract dt s) =
               (beans s)[i := (beans s ! i)\<lparr>
                  bean_x := tongue_x (tongue (pyoro s)) -
                    real_of_int (tongue_direction (tongue (pyoro s))) * (TONGUE_SPEED * 2 * dt),
                  bean_y := tongue_y (tongue (pyoro s)) + TONGUE_SPEED * 2 * dt\<rparr>]"
      and t: "tongue_active (tongue (pyoro (tongue_retract dt s)))"
        "caught_bean (tongue (pyoro (tongue_retract dt s)))"
        "going_back (tongue (pyoro (tongue_retract dt s)))"
      using False act \<open>caught_bean (tongue (pyoro s))\<close> gb by (simp_all add: cf Let_def)
    show ?thesis
    proof (rule catch_inv_one [of _ i])
      show "length (beans (tongue_retract dt s)) = 5" using len by (simp add: b)
      show "i < 5" by (rule i(1))
      show "held (beans (tongue_retract dt s) ! j) = (j = i)" if "j < 5" for j
        using that uniq [of j] len i(1,2) by (auto simp: b nth_list_update held_def)
    qed (rule t)+
  qed
qed

lemma tongue_extend_catch_inv:
  assumes inv: "catch_inv s" and act: "tongue_active (tongue (pyoro s))"
    and ext: "\<not> going_back (tongue (pyoro s))"
  shows "catch_inv (tongue_extend dt s)"
proof -
  define s1 where "s1 = s\<lparr>pyoro := (pyoro s)\<lparr>tongue := (tongue (pyoro s))\<lparr>
          tongue_x := tongue_x (tongue (pyoro s)) +
             real_of_int (tongue_direction (tongue (pyoro s))) * (TONGUE_SPEED * dt),
          tongue_y := tongue_y (tongue (pyoro s)) - TONGUE_SPEED * dt\<rparr>\<rparr>\<rparr>"
  from inv have len: "length (beans s) = 5" by (simp add: catch_inv_def)
  from inv act ext have nf: "\<not> caught_bean (tongue (pyoro s))" by (auto simp: catch_inv_def)
  with inv have none: "\<And>j. j < 5 \<Longrightarrow> \<not> held (beans s ! j)" by (auto simp: catch_inv_def)
  show ?thesis
  proof (cases "\<exists>i<5. catchable s1 (beans s ! i)")
    case False
    then have "\<forall>j<5. \<not> catchable s1 (beans s ! j)" by blast
    then have cf: "tongue_extend dt s =
     (let tx = tongue_x (tongue (pyoro s)) +
                 real_of_int (tongue_direction (tongue (pyoro s))) * (TONGUE_SPEED * dt);
          ty = tongue_y (tongue (pyoro s)) - TONGUE_SPEED * dt
      in s\<lparr>pyoro := (pyoro s)\<lparr>tongue := (tongue (pyoro s))\<lparr>
            tongue_x := tx, tongue_y := ty,
            going_back := going_back (tongue (pyoro s)) \<or>
                          tx < 0 \<or> tx > real_of_int GAME_WIDTH \<or> ty < 0\<rparr>\<rparr>\<rparr>)"
      unfolding s1_def by (rule tongue_extend_none)
    show ?thesis
      using len none nf
      by (intro catch_inv_none) (simp_all add: cf Let_def)
  next
    case True
    then obtain i where i: "i < 5" "catchable s1 (beans s ! i)"
      "\<forall>j. 0 \<le> j \<and> j < i \<longrightarrow> \<not> catchable s1 (beans s ! j)"
      by (rule first_catchable)
    note cf = tongue_extend_first [OF len i [unfolded s1_def]]
    from i(2) have a: "active (beans s ! i)" by (simp add: catchable_def)
    show ?thesis
    proof (rule catch_inv_one [of _ i])
      show "length (beans (tongue_extend dt s)) = 5" using len by (simp add: cf)
      show "i < 5" by (rule i(1))
      show "held (beans (tongue_extend dt s) ! j) = (j = i)" if "j < 5" for j
        using that none [of j] len i(1) a by (auto simp: cf nth_list_update held_def)
      show "tongue_active (tongue (pyoro (tongue_extend dt s)))"
        using act by (simp add: cf)
      show "caught_bean (tongue (pyoro (tongue_extend dt s)))" by (simp add: cf)
      show "going_back (tongue (pyoro (tongue_extend dt s)))" by (simp add: cf)
    qed
  qed
qed

lemma update_tongue_catch_inv:
  assumes "catch_inv s"
  shows "catch_inv (update_tongue dt s)"
  using assms
  by (simp add: update_tongue_def tongue_retract_catch_inv tongue_extend_catch_inv)

lemma update_before_beans_catch_inv:
  assumes "catch_inv s"
  shows "catch_inv (update_before_beans delta_time s)"
proof -
  define s3 where "s3 = (update_step_queue
           (s\<lparr>game_speed := game_speed s + scaled_delta delta_time s * SPEED_ACCELERATION\<rparr>))
         \<lparr>s_frame_count := s_frame_count (update_step_queue
           (s\<lparr>game_speed := game_speed s + scaled_delta delta_time s * SPEED_ACCELERATION\<rparr>)) + 1\<rparr>"
  have u: "update_before_beans delta_time s = update_tongue (scaled_delta delta_time s) s3"
    by (simp add: update_before_beans_def Let_def s3_def)
  have "catch_inv s3 = catch_inv s"
    by (rule catch_inv_cong) (simp_all add: s3_def)
  with assms show ?thesis by (simp add: u update_tongue_catch_inv)
qed

lemma update_beans_catch_inv:
  assumes "catch_inv s"
  shows "catch_inv (update_beans dt s)"
proof -
  have "catch_inv (update_beans dt s) = catch_inv s"
    by (rule catch_inv_cong) (simp_all add: update_beans_def update_beans_loop_held)
  with assms show ?thesis by simp
qed

lemma spawn_bean_held:
  "held (beans (spawn_bean r1 r2 r3 s) ! j) = held (beans s ! j)"
proof (cases "\<exists>i<5. \<not> active (beans s ! i)")
  case False
  then have "\<forall>j. 0 \<le> j \<and> j < 5 \<longrightarrow> active (beans s ! j)" by blast
  then show ?thesis by (simp add: spawn_bean_def spawn_bean_loop_none)
next
  case True
  then obtain i0 where "i0 < 5" "\<not> active (beans s ! i0)" by blast
  then obtain i where i: "0 \<le> i" "i < 5" "\<not> active (beans s ! i)"
      "\<forall>j. 0 \<le> j \<and> j < i \<longrightarrow> \<not> \<not> active (beans s ! j)"
    by (rule first_index [of 0 i0 5 "\<lambda>j. \<not> active (beans s ! j)", OF le0])
  then show ?thesis
    by (cases "i < length (beans s)")
       (auto simp: spawn_bean_def spawn_bean_loop_first [of 0 i] nth_list_update held_def
          list_update_beyond)
qed

lemma update_after_beans_catch_inv:
  assumes "catch_inv s"
  shows "catch_inv (update_after_beans dt r1 r2 r3 s)"
proof -
  have "catch_inv (update_after_beans dt r1 r2 r3 s) = catch_inv s"
    by (rule catch_inv_cong)
       (simp_all add: update_after_beans_def update_spawn_def Let_def spawn_bean_held)
  with assms show ?thesis by simp
qed

lemma update_game_catch_inv:
  assumes "catch_inv s"
  shows "catch_inv (update_game delta_time r1 r2 r3 s)"
proof (cases "state s = GAME_STATE_PLAYING \<and> \<not> game_paused s \<and> \<not> dead (pyoro s)")
  case True
  with assms show ?thesis
    by (simp add: update_game_playing update_after_beans_catch_inv update_beans_catch_inv
          update_before_beans_catch_inv)
next
  case False
  have "catch_inv (update_game delta_time r1 r2 r3 s) = catch_inv s"
    using False by (intro catch_inv_cong) (auto simp: update_game_def Let_def)
  with assms show ?thesis by simp
qed

lemma init_game_catch_inv:
  "length (beans s) = 5 \<Longrightarrow> catch_inv (init_game s)"
  by (rule catch_inv_none) (simp_all add: init_game_def held_def)

lemma handle_event_catch_inv:
  assumes "catch_inv s"
  shows "catch_inv (handle_event e s)"
proof (cases e)
  case (Tick delta_time r1 r2 r3)
  with assms show ?thesis by (simp add: update_game_catch_inv)
next
  case Select
  from assms have len: "length (beans s) = 5" by (simp add: catch_inv_def)
  have "catch_inv (reset_game s) = catch_inv (init_game s)"
    by (rule catch_inv_cong) (simp_all add: reset_game_def)
  with len have r: "catch_inv (reset_game s)" by (simp add: init_game_catch_inv)
  from assms have t: "catch_inv (s\<lparr>state := GAME_STATE_MENU\<rparr>)"
    by (simp add: catch_inv_def)
  from assms have a: "\<not> tongue_active (tongue (pyoro s)) \<Longrightarrow>
      catch_inv (s\<lparr>s_pending_step_count := 0,
             s_pending_step_dir := 0,
             pyoro := (pyoro s)\<lparr>
               moving := False,
               tongue := (tongue (pyoro s))\<lparr>
                 tongue_active := True,
                 tongue_x := pyoro_x (pyoro s) +
                   (real_of_int PYORO_VISUAL_SIZE / 2 + 0.6) * real_of_int (direction (pyoro s)),
                 tongue_y := pyoro_y (pyoro s) - real_of_int PYORO_VISUAL_SIZE / 2 + 0.6,
                 tongue_direction := direction (pyoro s),
                 going_back := False,
                 caught_bean := False\<rparr>\<rparr>\<rparr>)"
    by (simp add: catch_inv_def)
  from assms r t a Select show ?thesis
    by (simp add: prv_select_click_handler_def)
next
  case Up
  have "catch_inv (prv_up_click_handler s) = catch_inv s"
    by (rule catch_inv_cong) (simp_all add: prv_up_click_handler_def Let_def)
  with assms Up show ?thesis by simp
next
  case Down
  have "catch_inv (prv_down_click_handler s) = catch_inv s"
    by (rule catch_inv_cong) (simp_all add: prv_down_click_handler_def Let_def)
  with assms Down show ?thesis by simp
next
  case UpRepeat
  have "catch_inv (prv_up_repeating_click_handler s) = catch_inv s"
    by (rule catch_inv_cong) (simp_all add: prv_up_repeating_click_handler_def Let_def)
  with assms UpRepeat show ?thesis by simp
next
  case DownRepeat
  have "catch_inv (prv_down_repeating_click_handler s) = catch_inv s"
    by (rule catch_inv_cong) (simp_all add: prv_down_repeating_click_handler_def Let_def)
  with assms DownRepeat show ?thesis by simp
qed

lemma reachable_catch_inv: "reachable s \<Longrightarrow> catch_inv s"
proof (induction rule: reachable.induct)
  case (start stored)
  show ?case
    unfolding prv_window_load_def
    by (rule init_game_catch_inv)
       (simp add: load_high_scores_def zero_statics_def Let_def split: option.split)
next
  case (step s e)
  from step.IH show ?case by (rule handle_event_catch_inv)
qed

text \<open>
  Claim C10. In every reachable state at most one active bean has its \<open>caught\<close> flag
  set; some active bean is caught if and only if the tongue is active with its
  \<open>caught_bean\<close> flag set; and in that case the tongue is retracting.
\<close>

theorem one_caught_bean:
  assumes "reachable s"
  shows "length (beans s) = 5 \<and>
         (\<forall>i<5. \<forall>j<5. active (beans s ! i) \<and> caught (beans s ! i) \<and>
                        active (beans s ! j) \<and> caught (beans s ! j) \<longrightarrow> i = j) \<and>
         ((\<exists>i<5. active (beans s ! i) \<and> caught (beans s ! i)) =
            (tongue_active (tongue (pyoro s)) \<and> caught_bean (tongue (pyoro s)))) \<and>
         (tongue_active (tongue (pyoro s)) \<and> caught_bean (tongue (pyoro s)) \<longrightarrow>
            going_back (tongue (pyoro s)))"
  using reachable_catch_inv [OF assms] by (simp add: catch_inv_def held_def)

lemma st_caught_facts:
  "state st_caught = GAME_STATE_PLAYING" "\<not> game_paused st_caught"
  "\<not> dead (pyoro st_caught)"
  "active (beans st_caught ! 0)" "caught (beans st_caught ! 0)"
  "tongue (pyoro st_caught) = \<lparr>tongue_active = True, tongue_x = 15.0278, tongue_y = 14.1722,
                    tongue_direction = 1, going_back = True, caught_bean = True\<rparr>"
  "pyoro_y (pyoro st_caught) = 18" "game_speed st_caught = 1.2864852"
  by (simp_all add: short_game_defs)

theorem one_caught_bean_witness:
  "reachable st_caught \<and> active (beans st_caught ! 0) \<and> caught (beans st_caught ! 0) \<and>
   \<not> (active (beans st_caught ! 1) \<and> caught (beans st_caught ! 1)) \<and>
   \<not> (active (beans st_caught ! 4) \<and> caught (beans st_caught ! 4)) \<and>
   tongue_active (tongue (pyoro st_caught)) \<and> caught_bean (tongue (pyoro st_caught)) \<and>
   going_back (tongue (pyoro st_caught))"
proof -
  have z: "(0::nat) < 5" "(1::nat) < 5" "(4::nat) < 5" by simp_all
  note t = one_caught_bean [OF short_game_reachable(6)]
  from t st_caught_facts(4,5) z
  have "\<not> (active (beans st_caught ! 1) \<and> caught (beans st_caught ! 1))"
    "\<not> (active (beans st_caught ! 4) \<and> caught (beans st_caught ! 4))"
    by (metis zero_neq_one, metis zero_neq_numeral)
  moreover from t st_caught_facts(4,5) z
  have "tongue_active (tongue (pyoro st_caught)) \<and> caught_bean (tongue (pyoro st_caught)) \<and>
        going_back (tongue (pyoro st_caught))"
    by blast
  ultimately show ?thesis
    using short_game_reachable(6) st_caught_facts(4,5) by simp
qed

subsection \<open>A caught bean follows the tongue\<close>

text \<open>The bean loop gives the same result, slot \<open>i\<close> apart, whatever skipped bean
  (inactive or caught) slot \<open>i\<close> holds: such a bean is not moved, not tested against
  the character and breaks no block.\<close>

lemma put_bean_nth:
  "beans (put_bean i b s) ! k = (if k = i \<and> i < length (beans s) then b else beans s ! k)"
  by (cases "i < length (beans s)") (auto simp: put_bean_def list_update_beyond)

lemma bean_fall_put_bean:
  "k \<noteq> i \<Longrightarrow> bean_fall dt k (put_bean i b s) = put_bean i b (bean_fall dt k s)"
  by (simp add: bean_fall_def put_bean_def list_update_swap)

lemma bean_ground_put_bean:
  "k \<noteq> i \<Longrightarrow> bean_ground k (put_bean i b s) = put_bean i b (bean_ground k s)"
  by (simp add: bean_ground_def put_bean_def Let_def list_update_swap)

lemma bean_hits_pyoro_put_bean:
  "k \<noteq> i \<Longrightarrow> bean_hits_pyoro k (put_bean i b s) = bean_hits_pyoro k s"
  by (simp add: bean_hits_pyoro_def put_bean_def)

lemma pyoro_dies_put_bean:
  "pyoro_dies (put_bean i b s) = put_bean i b (pyoro_dies s)"
  by (simp add: pyoro_dies_def put_bean_def)

lemma update_beans_loop_put_bean:
  "\<not> (active b \<and> \<not> caught b) \<Longrightarrow>
   \<not> (active (beans s ! i) \<and> \<not> caught (beans s ! i)) \<Longrightarrow>
   update_beans_loop dt k (put_bean i b s) = put_bean i b (update_beans_loop dt k s)"
proof (induction dt k s rule: update_beans_loop.induct)
  case (1 dt k s)
  note unf = update_beans_loop.simps [of dt k s]
    update_beans_loop.simps [of dt k "put_bean i b s"]
  show ?case
  proof (cases "k < 5")
    case False
    then show ?thesis by (simp add: unf)
  next
    case lt: True
    show ?thesis
    proof (cases "k = i")
      case True
      from "1.prems" have s1: "(active (beans s ! i) \<and> \<not> caught (beans s ! i)) = False"
        by simp
      from "1.prems" have s2: "(active (beans (put_bean i b s) ! i) \<and>
                                  \<not> caught (beans (put_bean i b s) ! i)) = False"
        by (simp add: put_bean_nth)
      from True lt "1.prems" "1.IH"(2) have ih:
        "update_beans_loop dt (i + 1) (put_bean i b s) =
         put_bean i b (update_beans_loop dt (i + 1) s)"
        by simp
      from True lt show ?thesis
        by (simp only: unf [unfolded True] True s1 s2 if_True if_False ih)
    next
      case False
      then have same: "beans (put_bean i b s) ! k = beans s ! k"
        by (simp add: put_bean_nth)
      show ?thesis
      proof (cases "active (beans s ! k) \<and> \<not> caught (beans s ! k)")
        case nskip: True
        show ?thesis
        proof (cases "bean_hits_pyoro k (bean_fall dt k s)")
          case True
          with lt nskip False same show ?thesis
            by (simp add: unf bean_fall_put_bean bean_hits_pyoro_put_bean
                  pyoro_dies_put_bean)
        next
          case nohit: False
          have "\<not> (active (beans (bean_ground k (bean_fall dt k s)) ! i) \<and>
                   \<not> caught (beans (bean_ground k (bean_fall dt k s)) ! i))"
            using False "1.prems"(2) by (simp add: bean_ground_nth bean_fall_nth)
          with lt nskip nohit "1.prems"(1) "1.IH"(1)
          have ih: "update_beans_loop dt (k + 1)
                      (put_bean i b (bean_ground k (bean_fall dt k s))) =
                    put_bean i b
                      (update_beans_loop dt (k + 1) (bean_ground k (bean_fall dt k s)))"
            by simp
          from lt nskip nohit False same ih show ?thesis
            by (simp add: unf bean_fall_put_bean bean_ground_put_bean
                  bean_hits_pyoro_put_bean)
        qed
      next
        case skip: False
        from lt skip "1.prems" "1.IH"(2) have ih:
          "update_beans_loop dt (k + 1) (put_bean i b s) =
           put_bean i b (update_beans_loop dt (k + 1) s)"
          by simp
        from skip have s1: "(active (beans s ! k) \<and> \<not> caught (beans s ! k)) = False"
          by simp
        from lt ih show ?thesis
          by (simp only: unf same s1 if_True if_False)
      qed
    qed
  qed
qed

lemma update_beans_put_bean:
  assumes "\<not> (active b \<and> \<not> caught b)" and "\<not> (active (beans s ! i) \<and> \<not> caught (beans s ! i))"
  shows "update_beans dt (put_bean i b s) = put_bean i b (update_beans dt s)"
  using assms by (simp add: update_beans_def update_beans_loop_put_bean)

text \<open>The tongue update of a tick in which bean \<open>i\<close> is held.\<close>

lemma update_before_beans_held:
  assumes inv: "catch_inv s" and i: "i < 5" "held (beans s ! i)"
  shows "tongue_active (tongue (pyoro s)) \<and> going_back (tongue (pyoro s)) \<and>
         caught_bean (tongue (pyoro s))"
    and "tongue_y (tongue (pyoro (update_before_beans delta_time s))) = retracted_y delta_time s"
    and "bean_x (beans (update_before_beans delta_time s) ! i) =
           tongue_x (tongue (pyoro (update_before_beans delta_time s)))"
    and "bean_y (beans (update_before_beans delta_time s) ! i) =
           tongue_y (tongue (pyoro (update_before_beans delta_time s)))"
    and "caught (beans (update_before_beans delta_time s) ! i)"
    and "active (beans (update_before_beans delta_time s) ! i) =
           (\<not> retracted_y delta_time s \<ge> pyoro_y (pyoro s))"
    and "tongue_active (tongue (pyoro (update_before_beans delta_time s))) =
           (\<not> retracted_y delta_time s \<ge> pyoro_y (pyoro s))"
proof -
  from inv have len: "length (beans s) = 5" by (simp add: catch_inv_def)
  from inv i have t: "tongue_active (tongue (pyoro s))" "caught_bean (tongue (pyoro s))"
    by (auto simp: catch_inv_def)
  with inv have g: "going_back (tongue (pyoro s))" by (simp add: catch_inv_def)
  from t g show "tongue_active (tongue (pyoro s)) \<and> going_back (tongue (pyoro s)) \<and>
         caught_bean (tongue (pyoro s))" by simp
  from inv i have first: "\<forall>j. 0 \<le> j \<and> j < i \<longrightarrow> \<not> held (beans s ! j)"
    unfolding catch_inv_def by (metis less_trans nat_neq_iff)
  define s0 where "s0 = s\<lparr>game_speed := game_speed s + scaled_delta delta_time s * SPEED_ACCELERATION,
                s_pending_step_count := 0, s_pending_step_dir := 0,
                s_frame_count := s_frame_count s + 1\<rparr>"
  have u: "update_before_beans delta_time s = tongue_retract (scaled_delta delta_time s) s0"
    unfolding s0_def using t(1) g by (rule update_before_beans_retracting)
  have p0: "beans s0 = beans s" "pyoro s0 = pyoro s" by (simp_all add: s0_def)
  note r = tongue_retract_first [where s = s0 and i = i and dt = "scaled_delta delta_time s",
      unfolded p0,
      OF len t(2) i first]
  from i have c: "caught (beans s ! i)" "active (beans s ! i)" by (simp_all add: held_def)
  show "tongue_y (tongue (pyoro (update_before_beans delta_time s))) = retracted_y delta_time s"
    by (simp add: u r Let_def retracted_y_def)
  show "bean_x (beans (update_before_beans delta_time s) ! i) =
           tongue_x (tongue (pyoro (update_before_beans delta_time s)))"
    using len i(1) by (simp add: u r Let_def)
  show "bean_y (beans (update_before_beans delta_time s) ! i) =
           tongue_y (tongue (pyoro (update_before_beans delta_time s)))"
    using len i(1) by (simp add: u r Let_def)
  show "caught (beans (update_before_beans delta_time s) ! i)"
    using len i(1) c by (simp add: u r Let_def)
  show "active (beans (update_before_beans delta_time s) ! i) =
           (\<not> retracted_y delta_time s \<ge> pyoro_y (pyoro s))"
    using len i(1) c by (simp add: u r Let_def retracted_y_def)
  show "tongue_active (tongue (pyoro (update_before_beans delta_time s))) =
           (\<not> retracted_y delta_time s \<ge> pyoro_y (pyoro s))"
    using t(1) by (simp add: u r Let_def retracted_y_def)
qed

lemma update_after_beans_held:
  "held (beans (update_after_beans dt r1 r2 r3 s) ! j) = held (beans s ! j)"
  by (simp add: update_after_beans_def update_spawn_def Let_def spawn_bean_held)

text \<open>
  Claim C9. In a tick of a reachable state in the Playing state (not paused, character
  alive) in which bean \<open>i\<close> is held (active with its caught flag set): the tongue is
  active, going back and has its \<open>caught_bean\<close> flag set, so the tick retracts it. The
  tongue update puts the bean at the tongue tip, whose height is then
  \<open>retracted_y\<close>, keeps its caught flag, and deactivates the bean and the tongue exactly
  when the tip is back at the character (\<open>retracted_y \<ge> pyoro_y\<close>). The bean update
  leaves the bean as it is (no fall, no deactivation at ground level), and its result is
  the same, slot \<open>i\<close> apart, whatever inactive or caught bean the slot holds: the bean
  is not tested against the character and breaks no block. At the end of the tick the
  bean is held exactly when the retraction is not complete, and is then still the bean
  at the tongue tip.
\<close>

theorem caught_bean_follows_tongue:
  assumes "reachable s" and "state s = GAME_STATE_PLAYING" and "\<not> game_paused s"
    and "\<not> dead (pyoro s)" and "i < 5" and "active (beans s ! i)" and "caught (beans s ! i)"
  shows
    "let dt = scaled_delta delta_time s;
         s4 = update_before_beans delta_time s;
         s5 = update_beans dt s4;
         s' = update_game delta_time r1 r2 r3 s;
         complete = (retracted_y delta_time s \<ge> pyoro_y (pyoro s))
     in tongue_active (tongue (pyoro s)) \<and> going_back (tongue (pyoro s)) \<and>
        caught_bean (tongue (pyoro s)) \<and>
        tongue_y (tongue (pyoro s4)) = retracted_y delta_time s \<and>
        bean_x (beans s4 ! i) = tongue_x (tongue (pyoro s4)) \<and>
        bean_y (beans s4 ! i) = tongue_y (tongue (pyoro s4)) \<and>
        caught (beans s4 ! i) \<and>
        active (beans s4 ! i) = (\<not> complete) \<and>
        tongue_active (tongue (pyoro s4)) = (\<not> complete) \<and>
        beans s5 ! i = beans s4 ! i \<and>
        (\<forall>b. \<not> (active b \<and> \<not> caught b) \<longrightarrow>
             update_beans dt (put_bean i b s4) = put_bean i b s5) \<and>
        held (beans s' ! i) = (\<not> complete) \<and>
        (\<not> complete \<longrightarrow>
           beans s' ! i = beans s4 ! i \<and> tongue (pyoro s') = tongue (pyoro s4))"
proof -
  define dt where "dt = scaled_delta delta_time s"
  define s4 where "s4 = update_before_beans delta_time s"
  define s5 where "s5 = update_beans dt s4"
  define s' where "s' = update_game delta_time r1 r2 r3 s"
  define complete where "complete = (retracted_y delta_time s \<ge> pyoro_y (pyoro s))"
  from assms(1) have inv: "catch_inv s" by (rule reachable_catch_inv)
  from assms(6,7) have h: "held (beans s ! i)" by (simp add: held_def)
  note t = update_before_beans_held(1) [OF inv assms(5) h]
  note b = update_before_beans_held(2-7) [OF inv assms(5) h, of delta_time,
      folded s4_def complete_def]
  from b(4) have skip: "\<not> (active (beans s4 ! i) \<and> \<not> caught (beans s4 ! i))" by simp
  from skip have same: "beans s5 ! i = beans s4 ! i"
    by (simp add: s5_def update_beans_def update_beans_loop_skips)
  have indep: "\<forall>b. \<not> (active b \<and> \<not> caught b) \<longrightarrow>
             update_beans dt (put_bean i b s4) = put_bean i b s5"
    using skip by (simp add: s5_def update_beans_put_bean)
  have s': "s' = update_after_beans dt r1 r2 r3 s5"
    using assms(2-4) by (simp add: s'_def s5_def s4_def dt_def update_game_playing)
  from b(4,5) same have h5: "held (beans s5 ! i) = (\<not> complete)" by (simp add: held_def)
  then have h': "held (beans s' ! i) = (\<not> complete)"
    by (simp add: s' update_after_beans_held)
  have keep: "beans s' ! i = beans s4 ! i \<and> tongue (pyoro s') = tongue (pyoro s4)"
    if "\<not> complete"
  proof -
    from that h5 have "active (beans s5 ! i)" by (simp add: held_def)
    then have "beans s' ! i = beans s5 ! i" unfolding s' by (rule update_after_beans_active)
    with same show ?thesis by (simp add: s' s5_def)
  qed
  from t b same indep h' keep show ?thesis
    unfolding Let_def dt_def [symmetric] s4_def [symmetric] s5_def [symmetric]
      s'_def [symmetric] complete_def [symmetric]
    by blast
qed


text \<open>In the short game the pink bean of slot 0 is held in \<open>st_caught\<close>, with the tongue
  tip at height 14.1722. A tick of 1 ms leaves the tip above the character, and the bean
  is still held, at the tip; a tick of 100 ms brings the tip to the character, and the bean is
  removed. The bean update of that tick does the same with another caught bean in
  slot 0.\<close>

lemma st_caught_retracted:
  "retracted_y (1 / 1000) st_caught = 3552698639 / 250000000"
  "retracted_y (1 / 10) st_caught = 45079139 / 2500000"
  by (simp_all add: retracted_y_def scaled_delta_def st_caught_facts TONGUE_SPEED_def)

theorem caught_bean_follows_tongue_witness:
  "reachable st_caught \<and> active (beans st_caught ! 0) \<and> caught (beans st_caught ! 0) \<and>
   retracted_y 0.001 st_caught < pyoro_y (pyoro st_caught) \<and>
   held (beans (update_game 0.001 0 0 0 st_caught) ! 0) \<and>
   bean_y (beans (update_game 0.001 0 0 0 st_caught) ! 0) = retracted_y 0.001 st_caught \<and>
   bean_y (beans (update_game 0.001 0 0 0 st_caught) ! 0) =
     tongue_y (tongue (pyoro (update_game 0.001 0 0 0 st_caught))) \<and>
   bean_x (beans (update_game 0.001 0 0 0 st_caught) ! 0) =
     tongue_x (tongue (pyoro (update_game 0.001 0 0 0 st_caught))) \<and>
   pyoro_y (pyoro st_caught) \<le> retracted_y 0.1 st_caught \<and>
   \<not> active (beans (update_before_beans 0.1 st_caught) ! 0) \<and>
   \<not> held (beans (update_game 0.1 0 0 0 st_caught) ! 0) \<and>
   update_beans (scaled_delta 0.1 st_caught)
     (put_bean 0 \<lparr>bean_x = 10, bean_y = 18, speed = 1, active = True, caught = True,
                  bean_type = BEAN_TYPE_GREEN\<rparr> (update_before_beans 0.1 st_caught)) =
   put_bean 0 \<lparr>bean_x = 10, bean_y = 18, speed = 1, active = True, caught = True,
                bean_type = BEAN_TYPE_GREEN\<rparr>
     (update_beans (scaled_delta 0.1 st_caught) (update_before_beans 0.1 st_caught))"
proof -
  have z: "(0::nat) < 5" by simp
  note hyps = short_game_reachable(6) st_caught_facts(1-3) z st_caught_facts(4,5)
  note short = caught_bean_follows_tongue [OF hyps, of "0.001" 0 0 0, unfolded Let_def]
  note long = caught_bean_follows_tongue [OF hyps, of "0.1" 0 0 0, unfolded Let_def]
  have below: "retracted_y 0.001 st_caught < pyoro_y (pyoro st_caught)"
    by (simp add: st_caught_retracted st_caught_facts)
  have fin: "pyoro_y (pyoro st_caught) \<le> retracted_y 0.1 st_caught"
    by (simp add: st_caught_retracted st_caught_facts)
  from below have nc: "\<not> pyoro_y (pyoro st_caught) \<le> retracted_y 0.001 st_caught" by simp
  from short nc have s1: "held (beans (update_game 0.001 0 0 0 st_caught) ! 0)" by blast
  from short nc have s2:
    "beans (update_game 0.001 0 0 0 st_caught) ! 0 = beans (update_before_beans 0.001 st_caught) ! 0"
    "tongue (pyoro (update_game 0.001 0 0 0 st_caught)) =
       tongue (pyoro (update_before_beans 0.001 st_caught))"
    by blast+
  from short have s3:
    "tongue_y (tongue (pyoro (update_before_beans 0.001 st_caught))) = retracted_y 0.001 st_caught"
    "bean_x (beans (update_before_beans 0.001 st_caught) ! 0) =
       tongue_x (tongue (pyoro (update_before_beans 0.001 st_caught)))"
    "bean_y (beans (update_before_beans 0.001 st_caught) ! 0) =
       tongue_y (tongue (pyoro (update_before_beans 0.001 st_caught)))"
    by blast+
  from long fin have l1: "\<not> active (beans (update_before_beans 0.1 st_caught) ! 0)"
    "\<not> held (beans (update_game 0.1 0 0 0 st_caught) ! 0)"
    by blast+
  from long have ind: "\<forall>b. \<not> (active b \<and> \<not> caught b) \<longrightarrow>
     update_beans (scaled_delta 0.1 st_caught) (put_bean 0 b (update_before_beans 0.1 st_caught)) =
     put_bean 0 b (update_beans (scaled_delta 0.1 st_caught) (update_before_beans 0.1 st_caught))"
    by blast
  have l2: "update_beans (scaled_delta 0.1 st_caught)
     (put_bean 0 \<lparr>bean_x = 10, bean_y = 18, speed = 1, active = True, caught = True,
                  bean_type = BEAN_TYPE_GREEN\<rparr> (update_before_beans 0.1 st_caught)) =
   put_bean 0 \<lparr>bean_x = 10, bean_y = 18, speed = 1, active = True, caught = True,
                bean_type = BEAN_TYPE_GREEN\<rparr>
     (update_beans (scaled_delta 0.1 st_caught) (update_before_beans 0.1 st_caught))"
    by (rule ind [rule_format]) simp
  from short_game_reachable(6) st_caught_facts(4,5) below fin s1 s2 s3 l1 l2
  show ?thesis by (simp only: simp_thms)
qed

end
